theory Spec2Isabelle
  imports Main
begin

section \<open>Values of the host language\<close>

text \<open>
  The library \<^verbatim>\<open>frmz\<close> (file \<^verbatim>\<open>src/index.ts\<close>) works on arbitrary
  JavaScript values. A value is modelled as a finite tree (the README lists circular
  references as unsupported):
  \<^item> the primitives \<^verbatim>\<open>undefined\<close>, \<^verbatim>\<open>null\<close>, booleans, numbers, strings, bigints and
    symbols; a number is \<^verbatim>\<open>NaN\<close> or an integer of magnitude at most \<open>2\<^sup>5\<^sup>3\<close>, the
    integers that a double holds exactly (other numbers are not represented);
  \<^item> functions, carrying their source text (what \<^verbatim>\<open>String(f)\<close> returns);
  \<^item> \<^verbatim>\<open>Blob\<close> and \<^verbatim>\<open>File\<close> objects, carrying the address of the object (two binary
    values are the same reference exactly when their addresses are equal) and the
    bytes they hold;
  \<^item> arrays, as the list of their elements (dense, no extra properties);
  \<^item> other objects, as the list of their own enumerable string-keyed properties in
    the order of \<^verbatim>\<open>Object.keys\<close>; the class tells a plain object from a \<^verbatim>\<open>Date\<close>.

  Every object (binary, array or other) carries a flag telling whether the value is
  a \<^verbatim>\<open>Proxy\<close> built by \<^verbatim>\<open>new Proxy(target, handler)\<close> with the library's handler.
  Such a proxy forwards everything but \<^verbatim>\<open>set\<close> to its target, so reads, \<^verbatim>\<open>typeof\<close>,
  \<^verbatim>\<open>Array.isArray\<close>, \<^verbatim>\<open>instanceof\<close> and \<^verbatim>\<open>Object.keys\<close> do not see the flag. Wrapping a
  proxy again stacks a second proxy with the same handler in the host; the flag
  records only that there is at least one.
\<close>

datatype blobclass = BlobClass | FileClass

datatype objclass = PlainObject | DateObject

datatype jsnumber = Finite int | NaN

datatype jsval =
    JUndefined
  | JNull
  | JBoolean bool
  | JNumber jsnumber
  | JString string
  | JBigInt int
  | JSymbol string
  | JFunction string
  | JBlob blobclass bool nat string
  | JArray bool "jsval list"
  | JObject objclass bool "(string \<times> jsval) list"

fun typeof :: "jsval \<Rightarrow> string" where
  "typeof JUndefined = ''undefined''"
| "typeof JNull = ''object''"
| "typeof (JBoolean b) = ''boolean''"
| "typeof (JNumber n) = ''number''"
| "typeof (JString s) = ''string''"
| "typeof (JBigInt i) = ''bigint''"
| "typeof (JSymbol d) = ''symbol''"
| "typeof (JFunction src) = ''function''"
| "typeof (JBlob c p a bytes) = ''object''"
| "typeof (JArray p xs) = ''object''"
| "typeof (JObject c p props) = ''object''"

fun Array_isArray :: "jsval \<Rightarrow> bool" where
  "Array_isArray (JArray p xs) = True"
| "Array_isArray v = False"

fun instanceof_Blob :: "jsval \<Rightarrow> bool" where
  "instanceof_Blob (JBlob c p a bytes) = True"
| "instanceof_Blob v = False"

fun instanceof_File :: "jsval \<Rightarrow> bool" where
  "instanceof_File (JBlob FileClass p a bytes) = True"
| "instanceof_File v = False"

subsection \<open>Type guards\<close>

definition isProxiable :: "jsval \<Rightarrow> bool" where
  "isProxiable v = (typeof v = ''object'' \<and> v \<noteq> JNull)"

definition isBlobLike :: "jsval \<Rightarrow> bool" where
  "isBlobLike v = (instanceof_Blob v \<or> instanceof_File v)"

subsection \<open>String conversion\<close>

text \<open>
  \<^verbatim>\<open>String(value)\<close> for the values the flattener converts. An integer of magnitude
  at most \<open>2\<^sup>5\<^sup>3\<close> prints in decimal, as in the host; beyond that the host rounds to a
  double and prints its shortest digits (an exponent from \<open>10\<^sup>2\<^sup>1\<close> on), which the
  model does not represent: the text is left unspecified there. A bigint prints
  all its digits. The text of an object is left unspecified too.
\<close>

definition digit :: "nat \<Rightarrow> char" where
  "digit n = ''0123456789'' ! n"

fun decimal :: "nat \<Rightarrow> string" where
  "decimal n = (if n < 10 then [digit n] else decimal (n div 10) @ [digit (n mod 10)])"

declare decimal.simps [simp del]

definition decimal_int :: "int \<Rightarrow> string" where
  "decimal_int i = (if i < 0 then CHR ''-'' # decimal (nat (- i)) else decimal (nat i))"

fun ToString :: "jsval \<Rightarrow> string" where
  "ToString JUndefined = ''undefined''"
| "ToString JNull = ''null''"
| "ToString (JBoolean b) = (if b then ''true'' else ''false'')"
| "ToString (JNumber (Finite i)) =
     (if \<bar>i\<bar> \<le> 9007199254740992 then decimal_int i else undefined)"
| "ToString (JNumber NaN) = ''NaN''"
| "ToString (JString s) = s"
| "ToString (JBigInt i) = decimal_int i"
| "ToString (JSymbol d) = ''Symbol('' @ d @ '')''"
| "ToString (JFunction src) = src"


section \<open>The deep mutation wrapper\<close>

text \<open>
  \<^verbatim>\<open>createDeepProxy(target, handler)\<close> (lines 28-39) walks \<^verbatim>\<open>Object.keys(target)\<close>,
  replaces in place every child that is proxiable and not binary by its own deep
  proxy, and returns \<^verbatim>\<open>new Proxy(target, handler)\<close>. The two loop functions are the
  \<^verbatim>\<open>for\<close> loop over the keys of an array and of an object. The function is typed on
  \<^verbatim>\<open>Proxiable\<close> and both callers check \<^verbatim>\<open>isProxiable\<close> first, so the last equation
  (a primitive target, on which the host's \<^verbatim>\<open>new Proxy\<close> would throw) is never used.
\<close>

fun createDeepProxy :: "jsval \<Rightarrow> jsval"
  and createDeepProxy_elems :: "jsval list \<Rightarrow> jsval list"
  and createDeepProxy_fields :: "(string \<times> jsval) list \<Rightarrow> (string \<times> jsval) list" where
  "createDeepProxy (JArray p xs) = JArray True (createDeepProxy_elems xs)"
| "createDeepProxy (JObject c p props) = JObject c True (createDeepProxy_fields props)"
| "createDeepProxy (JBlob c p a bytes) = JBlob c True a bytes"
| "createDeepProxy v = v"
| "createDeepProxy_elems [] = []"
| "createDeepProxy_elems (v # xs) =
     (if isProxiable v \<and> \<not> isBlobLike v then createDeepProxy v else v)
       # createDeepProxy_elems xs"
| "createDeepProxy_fields [] = []"
| "createDeepProxy_fields ((key, v) # props) =
     (key, if isProxiable v \<and> \<not> isBlobLike v then createDeepProxy v else v)
       # createDeepProxy_fields props"

section \<open>Schema inference\<close>

text \<open>
  The schemas are those of the validation library \<^verbatim>\<open>zod\<close>, a peer dependency that
  is not part of the repository. \<^verbatim>\<open>inferSchema\<close> builds them from ten constructors:
  \<^verbatim>\<open>z.string()\<close>, \<^verbatim>\<open>z.number()\<close>, \<^verbatim>\<open>z.boolean()\<close>, \<^verbatim>\<open>z.null()\<close>, \<^verbatim>\<open>z.undefined()\<close>,
  \<^verbatim>\<open>z.unknown()\<close>, \<^verbatim>\<open>z.instanceof(Blob)\<close>, \<^verbatim>\<open>z.array(s)\<close>, \<^verbatim>\<open>z.union([...])\<close> and
  \<^verbatim>\<open>z.object(shape)\<close>, the shape listing its keys in insertion order.
\<close>

datatype zod =
    ZString
  | ZNumber
  | ZBoolean
  | ZNull
  | ZUndefined
  | ZUnknown
  | ZInstanceofBlob
  | ZArray zod
  | ZUnion "zod list"
  | ZObject "(string \<times> zod) list"

text \<open>
  \<^verbatim>\<open>inferSchema(data)\<close> (lines 42-101). \<^verbatim>\<open>inferSchema_items\<close> is the \<^verbatim>\<open>for ... of\<close>
  loop of lines 46-64, pushing one schema per item onto \<^verbatim>\<open>elementTypes\<close>;
  \<^verbatim>\<open>inferSchema_keys\<close> is the loop of lines 74-93 over \<^verbatim>\<open>Object.keys(data)\<close>, setting
  \<^verbatim>\<open>shape[key]\<close> (the keys of an object are distinct, so every assignment adds a new
  key at the end of the shape). The chain of tests is written out in each loop, as
  in the source.
\<close>

fun inferSchema :: "jsval \<Rightarrow> zod"
  and inferSchema_items :: "jsval list \<Rightarrow> zod list \<Rightarrow> zod list"
  and inferSchema_keys :: "(string \<times> jsval) list \<Rightarrow> (string \<times> zod) list \<Rightarrow> (string \<times> zod) list" where
  "inferSchema (JArray p xs) =
     (let elementTypes = inferSchema_items xs [] in
      ZArray (if length elementTypes > 0 then ZUnion elementTypes else ZUnknown))"
| "inferSchema (JObject c p props) = ZObject (inferSchema_keys props [])"
| "inferSchema (JBlob c p a bytes) = ZInstanceofBlob"
| "inferSchema v = ZUnknown"
| "inferSchema_items [] elementTypes = elementTypes"
| "inferSchema_items (item # rest) elementTypes =
     inferSchema_items rest (elementTypes @
       [if isProxiable item \<and> \<not> isBlobLike item then inferSchema item
        else if isBlobLike item then ZInstanceofBlob
        else if typeof item = ''string'' then ZString
        else if typeof item = ''number'' then ZNumber
        else if typeof item = ''boolean'' then ZBoolean
        else if item = JNull then ZNull
        else if item = JUndefined then ZUndefined
        else ZUnknown])"
| "inferSchema_keys [] shape = shape"
| "inferSchema_keys ((key, v) # rest) shape =
     inferSchema_keys rest (shape @
       [(key,
         if isProxiable v \<and> \<not> isBlobLike v then inferSchema v
         else if isBlobLike v then ZInstanceofBlob
         else if typeof v = ''string'' then ZString
         else if typeof v = ''number'' then ZNumber
         else if typeof v = ''boolean'' then ZBoolean
         else if v = JNull then ZNull
         else if v = JUndefined then ZUndefined
         else ZUnknown)])"

text \<open>
  The schema of one item of an array or one value of an object: the chain of tests
  of lines 47-63 (and 76-92), on its own.
\<close>

definition item_schema :: "jsval \<Rightarrow> zod" where
  "item_schema item =
     (if isProxiable item \<and> \<not> isBlobLike item then inferSchema item
      else if isBlobLike item then ZInstanceofBlob
      else if typeof item = ''string'' then ZString
      else if typeof item = ''number'' then ZNumber
      else if typeof item = ''boolean'' then ZBoolean
      else if item = JNull then ZNull
      else if item = JUndefined then ZUndefined
      else ZUnknown)"

section \<open>Serialization to FormData\<close>

text \<open>
  A \<^verbatim>\<open>FormData\<close> object is the list of its entries in the order of the calls of
  \<^verbatim>\<open>append\<close>. The host's \<^verbatim>\<open>append(key, value)\<close> stores a \<^verbatim>\<open>File\<close> as it is (the entry
  is that object: its address and bytes); for a \<^verbatim>\<open>Blob\<close> that is not a \<^verbatim>\<open>File\<close> it
  stores a new \<^verbatim>\<open>File\<close> object on the same bytes, which is no object of the tree;
  any other value is stored as its string. A proxy of a binary is not a \<^verbatim>\<open>Blob\<close> for
  the host, so it falls under the last case.
\<close>

datatype entry = Text string | FileRef nat string | NewFile string

type_synonym formdata = "(string \<times> entry) list"

fun stored :: "jsval \<Rightarrow> entry" where
  "stored (JBlob FileClass False a bytes) = FileRef a bytes"
| "stored (JBlob BlobClass False a bytes) = NewFile bytes"
| "stored v = Text (ToString v)"

definition append :: "formdata \<Rightarrow> string \<Rightarrow> jsval \<Rightarrow> formdata" where
  "append formData key v = formData @ [(key, stored v)]"

text \<open>
  \<^verbatim>\<open>appendToFormData(formData, data, parentKey)\<close> (lines 104-136).
  \<^verbatim>\<open>appendToFormData_forEach\<close> is the callback of \<^verbatim>\<open>data.forEach\<close> run from the given
  index on; \<^verbatim>\<open>appendToFormData_entries\<close> is the loop over \<^verbatim>\<open>Object.entries(data)\<close>.
  The test \<^verbatim>\<open>parentKey ? ... : ...\<close> is the truthiness of a string: it is not empty.
\<close>

fun appendToFormData :: "formdata \<Rightarrow> jsval \<Rightarrow> string \<Rightarrow> formdata"
  and appendToFormData_forEach :: "formdata \<Rightarrow> jsval list \<Rightarrow> nat \<Rightarrow> string \<Rightarrow> formdata"
  and appendToFormData_entries :: "formdata \<Rightarrow> (string \<times> jsval) list \<Rightarrow> string \<Rightarrow> formdata" where
  "appendToFormData formData (JArray p xs) parentKey =
     appendToFormData_forEach formData xs 0 parentKey"
| "appendToFormData formData (JObject c p props) parentKey =
     appendToFormData_entries formData props parentKey"
| "appendToFormData formData (JBlob c p a bytes) parentKey =
     (if parentKey \<noteq> '''' then append formData parentKey (JBlob c p a bytes) else formData)"
| "appendToFormData formData v parentKey =
     (if parentKey \<noteq> '''' then formData @ [(parentKey, Text (ToString v))] else formData)"
| "appendToFormData_forEach formData [] index parentKey = formData"
| "appendToFormData_forEach formData (v # rest) index parentKey =
     (let key = (if parentKey \<noteq> '''' then parentKey @ ''['' @ decimal index @ '']''
                 else decimal index) in
      appendToFormData_forEach
        (if isProxiable v \<and> \<not> isBlobLike v then appendToFormData formData v key
         else if isBlobLike v then append formData key v
         else formData @ [(key, Text (ToString v))])
        rest (Suc index) parentKey)"
| "appendToFormData_entries formData [] parentKey = formData"
| "appendToFormData_entries formData ((key, v) # rest) parentKey =
     (let newKey = (if parentKey \<noteq> '''' then parentKey @ ''['' @ key @ '']'' else key) in
      appendToFormData_entries
        (if isProxiable v \<and> \<not> isBlobLike v then appendToFormData formData v newKey
         else if isBlobLike v then append formData newKey v
         else formData @ [(newKey, Text (ToString v))])
        rest parentKey)"

section \<open>The host functions the entry point calls\<close>

datatype error = RootTypeError | ZodError | DataCloneError

subsection \<open>Validation\<close>

text \<open>
  \<^verbatim>\<open>schema.parse(value)\<close> of \<^verbatim>\<open>zod\<close>, for the ten constructors above, after the
  library's documentation and its version 3: it returns the accepted value or
  throws a \<^verbatim>\<open>ZodError\<close>.
  \<^item> \<^verbatim>\<open>z.string()\<close>, \<^verbatim>\<open>z.boolean()\<close>, \<^verbatim>\<open>z.null()\<close> and \<^verbatim>\<open>z.undefined()\<close> accept the values
    of their kind; \<^verbatim>\<open>z.number()\<close> accepts every number but \<^verbatim>\<open>NaN\<close>.
  \<^item> \<^verbatim>\<open>z.unknown()\<close> accepts every value and returns it as it is.
  \<^item> \<^verbatim>\<open>z.instanceof(Blob)\<close> accepts the instances of \<^verbatim>\<open>Blob\<close> (a \<^verbatim>\<open>File\<close> is one) and
    returns the value as it is.
  \<^item> \<^verbatim>\<open>z.array(s)\<close> accepts an array whose every element \<open>s\<close> accepts, and returns a
    new array of the parsed elements.
  \<^item> \<^verbatim>\<open>z.union(options)\<close> tries the options in order and returns the result of the
    first one that accepts.
  \<^item> \<^verbatim>\<open>z.object(shape)\<close> accepts an object that is not an array or a \<^verbatim>\<open>Date\<close> (a
    binary is such an object, with no own enumerable property); it parses \<^verbatim>\<open>data[key]\<close> for every key of the shape (\<^verbatim>\<open>undefined\<close> when the key is
    absent) and returns a new plain object with the keys of the shape: keys of the
    input that the shape does not name are stripped, and a key absent from the
    input whose result is \<^verbatim>\<open>undefined\<close> stays absent. Inherited properties (a key
    such as \<^verbatim>\<open>constructor\<close>, or \<^verbatim>\<open>size\<close> on a binary) are not modelled: a key is read
    among the own properties.
\<close>

fun collect :: "(error + 'a) list \<Rightarrow> error + 'a list" where
  "collect [] = Inr []"
| "collect (Inl e # rs) = Inl e"
| "collect (Inr x # rs) = (case collect rs of Inl e \<Rightarrow> Inl e | Inr xs \<Rightarrow> Inr (x # xs))"

fun first_valid :: "(error + 'a) list \<Rightarrow> error + 'a" where
  "first_valid [] = Inl ZodError"
| "first_valid (Inr x # rs) = Inr x"
| "first_valid (Inl e # rs) = first_valid rs"

definition own_property :: "(string \<times> jsval) list \<Rightarrow> string \<Rightarrow> jsval" where
  "own_property props key = (case map_of props key of Some v \<Rightarrow> v | None \<Rightarrow> JUndefined)"

fun object_fields :: "jsval \<Rightarrow> (string \<times> jsval) list option" where
  "object_fields (JObject PlainObject p props) = Some props"
| "object_fields (JBlob c p a bytes) = Some []"
| "object_fields v = None"

definition kept :: "(string \<times> jsval) list \<Rightarrow> string \<times> jsval \<Rightarrow> bool" where
  "kept props kv = (snd kv \<noteq> JUndefined \<or> fst kv \<in> fst ` set props)"

fun parse :: "zod \<Rightarrow> jsval \<Rightarrow> error + jsval" where
  "parse ZString v = (if typeof v = ''string'' then Inr v else Inl ZodError)"
| "parse ZNumber v = (if typeof v = ''number'' \<and> v \<noteq> JNumber NaN then Inr v else Inl ZodError)"
| "parse ZBoolean v = (if typeof v = ''boolean'' then Inr v else Inl ZodError)"
| "parse ZNull v = (if v = JNull then Inr v else Inl ZodError)"
| "parse ZUndefined v = (if v = JUndefined then Inr v else Inl ZodError)"
| "parse ZUnknown v = Inr v"
| "parse ZInstanceofBlob v = (if instanceof_Blob v then Inr v else Inl ZodError)"
| "parse (ZArray s) v =
     (case v of
        JArray p xs \<Rightarrow>
          (case collect (map (parse s) xs) of
             Inl e \<Rightarrow> Inl e
           | Inr ys \<Rightarrow> Inr (JArray False ys))
      | _ \<Rightarrow> Inl ZodError)"
| "parse (ZUnion options) v = first_valid (map (\<lambda>s. parse s v) options)"
| "parse (ZObject shape) v =
     (case object_fields v of
        None \<Rightarrow> Inl ZodError
      | Some props \<Rightarrow>
          (case collect (map (\<lambda>ks. parse (snd ks) (own_property props (fst ks))) shape) of
             Inl e \<Rightarrow> Inl e
           | Inr ys \<Rightarrow> Inr (JObject PlainObject False (filter (kept props) (zip (map fst shape) ys)))))"

subsection \<open>Structured cloning\<close>

text \<open>
  \<^verbatim>\<open>structuredClone(value)\<close> of the host (the structured clone algorithm of the HTML
  standard): primitives are returned as they are; an array, a plain object, a
  \<^verbatim>\<open>Date\<close>, a \<^verbatim>\<open>Blob\<close> and a \<^verbatim>\<open>File\<close> are serializable objects, and each is
  deserialized into a new object (for a binary: a new object on the same bytes);
  a symbol, a function and a \<^verbatim>\<open>Proxy\<close> throw a \<^verbatim>\<open>DataCloneError\<close>. The state is the
  next unused object address with the algorithm's memory, which maps an object
  already cloned to its clone (so that an object met twice is cloned once). Only
  binaries have an address in this model. The own properties of a \<^verbatim>\<open>Date\<close> are not
  serialized.
\<close>

type_synonym clone_state = "nat \<times> (nat \<times> nat) list"

fun structuredClone :: "clone_state \<Rightarrow> jsval \<Rightarrow> error + (jsval \<times> clone_state)"
  and structuredClone_elems :: "clone_state \<Rightarrow> jsval list \<Rightarrow> error + (jsval list \<times> clone_state)"
  and structuredClone_fields ::
    "clone_state \<Rightarrow> (string \<times> jsval) list \<Rightarrow> error + ((string \<times> jsval) list \<times> clone_state)" where
  "structuredClone st (JSymbol d) = Inl DataCloneError"
| "structuredClone st (JFunction src) = Inl DataCloneError"
| "structuredClone st (JBlob c p a bytes) =
     (if p then Inl DataCloneError
      else case map_of (snd st) a of
             Some a' \<Rightarrow> Inr (JBlob c False a' bytes, st)
           | None \<Rightarrow> Inr (JBlob c False (fst st) bytes, (Suc (fst st), (a, fst st) # snd st)))"
| "structuredClone st (JArray p xs) =
     (if p then Inl DataCloneError
      else case structuredClone_elems st xs of
             Inl e \<Rightarrow> Inl e
           | Inr (ys, st') \<Rightarrow> Inr (JArray False ys, st'))"
| "structuredClone st (JObject c p props) =
     (if p then Inl DataCloneError
      else case c of
             DateObject \<Rightarrow> Inr (JObject DateObject False [], st)
           | PlainObject \<Rightarrow>
               (case structuredClone_fields st props of
                  Inl e \<Rightarrow> Inl e
                | Inr (props', st') \<Rightarrow> Inr (JObject PlainObject False props', st')))"
| "structuredClone st v = Inr (v, st)"
| "structuredClone_elems st [] = Inr ([], st)"
| "structuredClone_elems st (v # xs) =
     (case structuredClone st v of
        Inl e \<Rightarrow> Inl e
      | Inr (v', st') \<Rightarrow>
          (case structuredClone_elems st' xs of
             Inl e \<Rightarrow> Inl e
           | Inr (ys, st'') \<Rightarrow> Inr (v' # ys, st'')))"
| "structuredClone_fields st [] = Inr ([], st)"
| "structuredClone_fields st ((key, v) # props) =
     (case structuredClone st v of
        Inl e \<Rightarrow> Inl e
      | Inr (v', st') \<Rightarrow>
          (case structuredClone_fields st' props of
             Inl e \<Rightarrow> Inl e
           | Inr (props', st'') \<Rightarrow> Inr ((key, v') # props', st'')))"

section \<open>The entry point\<close>

text \<open>
  \<^verbatim>\<open>frmz(initialData, schema?)\<close> (lines 154-181) returns the object
  \<^verbatim>\<open>{ data, getFormData }\<close>. The closure \<^verbatim>\<open>getFormData\<close> reads the variable \<^verbatim>\<open>data\<close>, so
  the handle is the record of \<^verbatim>\<open>data\<close> and \<^verbatim>\<open>getFormData\<close> is a function of the handle.
  The first argument is the next unused object address of the heap, which
  \<^verbatim>\<open>structuredClone\<close> allocates from. A schema object is truthy, so
  \<^verbatim>\<open>schema || inferSchema(initialData)\<close> is the schema when one is given.
\<close>

record handle =
  data :: jsval

definition frmz :: "nat \<Rightarrow> jsval \<Rightarrow> zod option \<Rightarrow> error + handle" where
  "frmz heap initialData schema =
     (if \<not> isProxiable initialData then Inl RootTypeError
      else
        let actualSchema = (case schema of Some s \<Rightarrow> s | None \<Rightarrow> inferSchema initialData) in
        case parse actualSchema initialData of
          Inl e \<Rightarrow> Inl e
        | Inr parsed \<Rightarrow>
            (case structuredClone (heap, []) parsed of
               Inl e \<Rightarrow> Inl e
             | Inr (copy, st) \<Rightarrow> Inr \<lparr>data = createDeepProxy copy\<rparr>))"

definition getFormData :: "handle \<Rightarrow> formdata" where
  "getFormData h = (let formData = [] in appendToFormData formData (data h) '''')"

section \<open>Writes through the handle\<close>

text \<open>
  A property key of the data model: the name of a field of an object, or the index
  of an element of an array.

  \<^verbatim>\<open>Reflect.set(target, property, newValue)\<close> on the objects of this model, all
  ordinary and extensible, with the prototype of their class: it gives the target
  after the call. On an object it replaces the value of an own key in place, or
  adds a new key, at the place the host lists it in \<^verbatim>\<open>Object.keys\<close>: a key that is an
  array index (the decimal text of a number below \<open>2\<^sup>3\<^sup>2 - 1\<close>, such as \<^verbatim>\<open>"0"\<close>) goes
  among the array indices in ascending order, which come first, and any other key
  goes at the end. The list of the fields of an object is taken in this order. The
  name \<^verbatim>\<open>__proto__\<close>, when it is not an own key, is served by the accessor of
  \<^verbatim>\<open>Object.prototype\<close>: the call adds no own property (for an object or \<^verbatim>\<open>null\<close> it
  changes the prototype of the target, which the model does not represent). On an
  array it replaces an element, or pushes one at the index \<^verbatim>\<open>length\<close>. The result is
  \<open>None\<close> where the write leaves the data model: an index beyond the length (the
  host makes the array sparse), a named property of an array (its \<^verbatim>\<open>length\<close> among
  them), an index on an object, or a target that is not an array or an object.
\<close>

datatype property = Field string | Elem nat

definition digit_value :: "char \<Rightarrow> nat" where
  "digit_value c = length (takeWhile (\<lambda>d. d \<noteq> c) ''0123456789'')"

definition number_of :: "string \<Rightarrow> nat" where
  "number_of key = foldl (\<lambda>n c. 10 * n + digit_value c) 0 key"

definition array_index :: "string \<Rightarrow> nat option" where
  "array_index key =
     (if decimal (number_of key) = key \<and> number_of key < 4294967295
      then Some (number_of key) else None)"

fun replace_field :: "(string \<times> jsval) list \<Rightarrow> string \<Rightarrow> jsval \<Rightarrow> (string \<times> jsval) list" where
  "replace_field [] key v = []"
| "replace_field ((k, w) # props) key v =
     (if k = key then (k, v) # props else (k, w) # replace_field props key v)"

fun insert_index :: "(string \<times> jsval) list \<Rightarrow> nat \<Rightarrow> string \<Rightarrow> jsval \<Rightarrow> (string \<times> jsval) list" where
  "insert_index [] i key v = [(key, v)]"
| "insert_index ((k, w) # props) i key v =
     (case array_index k of
        Some j \<Rightarrow> if j < i then (k, w) # insert_index props i key v else (key, v) # (k, w) # props
      | None \<Rightarrow> (key, v) # (k, w) # props)"

definition set_field :: "(string \<times> jsval) list \<Rightarrow> string \<Rightarrow> jsval \<Rightarrow> (string \<times> jsval) list" where
  "set_field props key v =
     (if key \<in> fst ` set props then replace_field props key v
      else if key = ''__proto__'' then props
      else case array_index key of
             Some i \<Rightarrow> insert_index props i key v
           | None \<Rightarrow> props @ [(key, v)])"

fun Reflect_set :: "jsval \<Rightarrow> property \<Rightarrow> jsval \<Rightarrow> jsval option" where
  "Reflect_set (JObject c p props) (Field key) v = Some (JObject c p (set_field props key v))"
| "Reflect_set (JArray p xs) (Elem i) v =
     (if i < length xs then Some (JArray p (xs[i := v]))
      else if i = length xs then Some (JArray p (xs @ [v]))
      else None)"
| "Reflect_set target property v = None"

text \<open>
  The \<^verbatim>\<open>set\<close> trap of the handler (lines 17-26): the target after the call, with the
  boolean the trap returns. The result of \<^verbatim>\<open>Reflect.set\<close> is dropped, as in the source.
\<close>

definition handler_set :: "jsval \<Rightarrow> property \<Rightarrow> jsval \<Rightarrow> (jsval \<times> bool) option" where
  "handler_set target property v =
     (let newValue = (if isProxiable v \<and> \<not> isBlobLike v then createDeepProxy v else v) in
      case Reflect_set target property newValue of
        None \<Rightarrow> None
      | Some target' \<Rightarrow> Some (target', True))"

fun is_proxy :: "jsval \<Rightarrow> bool" where
  "is_proxy (JBlob c p a bytes) = p"
| "is_proxy (JArray p xs) = p"
| "is_proxy (JObject c p props) = p"
| "is_proxy v = False"

text \<open>
  The assignment \<^verbatim>\<open>obj[property] = v\<close>: through the \<^verbatim>\<open>set\<close> trap when \<^verbatim>\<open>obj\<close> is a proxy,
  and plainly (the \<^verbatim>\<open>[[Set]]\<close> of an ordinary object, which succeeds) when it is not.
  The read \<^verbatim>\<open>obj[property]\<close> goes through a proxy unchanged; an absent key reads as
  \<^verbatim>\<open>undefined\<close>.
\<close>

definition assign :: "jsval \<Rightarrow> property \<Rightarrow> jsval \<Rightarrow> (jsval \<times> bool) option" where
  "assign obj property v =
     (if is_proxy obj then handler_set obj property v
      else case Reflect_set obj property v of
             None \<Rightarrow> None
           | Some obj' \<Rightarrow> Some (obj', True))"

fun get :: "jsval \<Rightarrow> property \<Rightarrow> jsval" where
  "get (JObject c p props) (Field key) = own_property props key"
| "get (JArray p xs) (Elem i) = (if i < length xs then xs ! i else JUndefined)"
| "get obj property = JUndefined"

text \<open>
  A write at a path: \<^verbatim>\<open>data.a.b[2] = v\<close> is \<open>write_at data [Field a, Field b] (Elem 2) v\<close>.
  The objects on the path are read one after the other and the last one is
  assigned to. The host mutates that object in place; in the tree the parents are
  rebuilt around it. The boolean is the result of the \<^verbatim>\<open>set\<close> trap. The result is
  \<open>None\<close> when the assignment is not modelled (the path does not lead to an array or an object,
  or the write leaves the data model).
\<close>

fun write_at :: "jsval \<Rightarrow> property list \<Rightarrow> property \<Rightarrow> jsval \<Rightarrow> (jsval \<times> bool) option" where
  "write_at obj [] property v = assign obj property v"
| "write_at obj (q # path) property v =
     (case write_at (get obj q) path property v of
        None \<Rightarrow> None
      | Some (child, ok) \<Rightarrow>
          (case Reflect_set obj q child of
             None \<Rightarrow> None
           | Some obj' \<Rightarrow> Some (obj', ok)))"

text \<open>A read at a path: \<^verbatim>\<open>data.a.b[2]\<close> is \<open>read_at data [Field a, Field b, Elem 2]\<close>.\<close>

fun read_at :: "jsval \<Rightarrow> property list \<Rightarrow> jsval" where
  "read_at obj [] = obj"
| "read_at obj (q # path) = read_at (get obj q) path"

text \<open>A sequence of writes on the handle, stopping at the first that is \<open>None\<close>.\<close>

fun writes :: "handle \<Rightarrow> (property list \<times> property \<times> jsval) list \<Rightarrow> handle option" where
  "writes h [] = Some h"
| "writes h ((path, property, v) # ws) =
     (case write_at (data h) path property v of
        None \<Rightarrow> None
      | Some (d, ok) \<Rightarrow> writes (h\<lparr>data := d\<rparr>) ws)"

section \<open>The data model of the specification\<close>

text \<open>
  The kinds of value of the specification's data model, following its words: the
  primitive kinds, \<open>BinaryPayload\<close>, \<open>Sequence\<close>, \<open>Record\<close>, and \<open>Unknown\<close> for
  ``any value not matching the above, e.g. functions, symbols, dates treated as
  opaque objects''.
\<close>

datatype kind =
    NullKind | UndefinedKind | BooleanKind | NumberKind | StringKind
  | BinaryPayload | Sequence | Record | Unknown

fun spec_kind :: "jsval \<Rightarrow> kind" where
  "spec_kind JUndefined = UndefinedKind"
| "spec_kind JNull = NullKind"
| "spec_kind (JBoolean b) = BooleanKind"
| "spec_kind (JNumber n) = NumberKind"
| "spec_kind (JString s) = StringKind"
| "spec_kind (JBlob c p a bytes) = BinaryPayload"
| "spec_kind (JArray p xs) = Sequence"
| "spec_kind (JObject PlainObject p props) = Record"
| "spec_kind v = Unknown"

section \<open>The key grammar of the specification\<close>

text \<open>
  The specification gives the keys of the transport object by a grammar: an element
  at index \<open>i\<close> or a field \<open>k\<close> under the prefix \<open>p\<close> has the key \<open>p[i]\<close> or \<open>p[k]\<close>
  when \<open>p\<close> is not empty, and \<open>i\<close> or \<open>k\<close> when it is. At a computed key, a Record or
  a Sequence is entered and adds no entry of its own, a BinaryPayload is appended
  raw, and anything else is appended as its text. The following definitions follow
  these words, not the code: \<open>leaves\<close> lists the leaves of a tree with their paths,
  fields in iteration order and elements in index order, where the containers are
  the values of the kinds \<open>Record\<close> and \<open>Sequence\<close> and every other value is a leaf (a
  \<^verbatim>\<open>Date\<close>, of the kind \<open>Unknown\<close>, is one); \<open>spec_path_key\<close> applies the grammar along
  a path; \<open>spec_entry\<close> is what is appended for a leaf.
\<close>

definition segment :: "property \<Rightarrow> string" where
  "segment s = (case s of Field k \<Rightarrow> k | Elem i \<Rightarrow> decimal i)"

definition spec_key :: "string \<Rightarrow> string \<Rightarrow> string" where
  "spec_key p k = (if p \<noteq> '''' then p @ ''['' @ k @ '']'' else k)"

fun spec_path_key :: "string \<Rightarrow> property list \<Rightarrow> string" where
  "spec_path_key p [] = p"
| "spec_path_key p (s # path) = spec_path_key (spec_key p (segment s)) path"

fun below :: "property \<Rightarrow> property list \<times> jsval \<Rightarrow> property list \<times> jsval" where
  "below s (path, leaf) = (s # path, leaf)"

fun leaves :: "jsval \<Rightarrow> (property list \<times> jsval) list"
  and leaves_elems :: "nat \<Rightarrow> jsval list \<Rightarrow> (property list \<times> jsval) list"
  and leaves_props :: "(string \<times> jsval) list \<Rightarrow> (property list \<times> jsval) list" where
  "leaves (JArray p xs) = leaves_elems 0 xs"
| "leaves (JObject PlainObject p props) = leaves_props props"
| "leaves v = [([], v)]"
| "leaves_elems i [] = []"
| "leaves_elems i (v # xs) = map (below (Elem i)) (leaves v) @ leaves_elems (Suc i) xs"
| "leaves_props [] = []"
| "leaves_props ((k, v) # props) = map (below (Field k)) (leaves v) @ leaves_props props"

definition spec_entry :: "jsval \<Rightarrow> entry" where
  "spec_entry leaf =
     (if spec_kind leaf = BinaryPayload then stored leaf else Text (ToString leaf))"

fun spec_item :: "string \<Rightarrow> property list \<times> jsval \<Rightarrow> string \<times> entry" where
  "spec_item p (path, leaf) = (spec_path_key p path, spec_entry leaf)"

definition spec_flatten :: "jsval \<Rightarrow> formdata" where
  "spec_flatten v = map (spec_item '''') (leaves v)"

text \<open>
  The leaves the flattener of the code reaches, for comparison: it enters every
  object that is not a binary, of whatever class, and appends everything else.
\<close>

fun visited :: "jsval \<Rightarrow> (property list \<times> jsval) list"
  and visited_elems :: "nat \<Rightarrow> jsval list \<Rightarrow> (property list \<times> jsval) list"
  and visited_props :: "(string \<times> jsval) list \<Rightarrow> (property list \<times> jsval) list" where
  "visited (JArray p xs) = visited_elems 0 xs"
| "visited (JObject c p props) = visited_props props"
| "visited v = [([], v)]"
| "visited_elems i [] = []"
| "visited_elems i (v # xs) = map (below (Elem i)) (visited v) @ visited_elems (Suc i) xs"
| "visited_props [] = []"
| "visited_props ((k, v) # props) = map (below (Field k)) (visited v) @ visited_props props"

fun visited_item :: "string \<Rightarrow> property list \<times> jsval \<Rightarrow> string \<times> entry" where
  "visited_item p (path, leaf) = (spec_path_key p path, stored leaf)"

text \<open>
  Every object of the tree that is not an array or a binary is a plain object: the
  tree holds no \<^verbatim>\<open>Date\<close> or other object of a class of its own.
\<close>

fun records_only :: "jsval \<Rightarrow> bool"
  and records_only_elems :: "jsval list \<Rightarrow> bool"
  and records_only_props :: "(string \<times> jsval) list \<Rightarrow> bool" where
  "records_only (JArray p xs) = records_only_elems xs"
| "records_only (JObject c p props) = (c = PlainObject \<and> records_only_props props)"
| "records_only v = True"
| "records_only_elems [] = True"
| "records_only_elems (v # xs) = (records_only v \<and> records_only_elems xs)"
| "records_only_props [] = True"
| "records_only_props ((k, v) # props) = (records_only v \<and> records_only_props props)"

section \<open>The wrapping invariant\<close>

text \<open>
  Every array and every object of a tree is a proxy. Binaries and primitives are
  never wrapped, so they satisfy the invariant as they are.
\<close>

fun deep_wrapped :: "jsval \<Rightarrow> bool"
  and deep_wrapped_elems :: "jsval list \<Rightarrow> bool"
  and deep_wrapped_props :: "(string \<times> jsval) list \<Rightarrow> bool" where
  "deep_wrapped (JArray p xs) = (p \<and> deep_wrapped_elems xs)"
| "deep_wrapped (JObject c p props) = (p \<and> deep_wrapped_props props)"
| "deep_wrapped v = True"
| "deep_wrapped_elems [] = True"
| "deep_wrapped_elems (v # xs) = (deep_wrapped v \<and> deep_wrapped_elems xs)"
| "deep_wrapped_props [] = True"
| "deep_wrapped_props ((k, v) # props) = (deep_wrapped v \<and> deep_wrapped_props props)"

text \<open>
  The tree behind the proxies: the same values with no proxy on the way, which is
  what reads through the proxies see.
\<close>

fun unwrap :: "jsval \<Rightarrow> jsval"
  and unwrap_elems :: "jsval list \<Rightarrow> jsval list"
  and unwrap_props :: "(string \<times> jsval) list \<Rightarrow> (string \<times> jsval) list" where
  "unwrap (JBlob c p a bytes) = JBlob c False a bytes"
| "unwrap (JArray p xs) = JArray False (unwrap_elems xs)"
| "unwrap (JObject c p props) = JObject c False (unwrap_props props)"
| "unwrap v = v"
| "unwrap_elems [] = []"
| "unwrap_elems (v # xs) = unwrap v # unwrap_elems xs"
| "unwrap_props [] = []"
| "unwrap_props ((k, v) # props) = (k, unwrap v) # unwrap_props props"

text \<open>
  The writes of the data model: a field of an object, under any name, and an
  element of an array, at an index up to its length. A path is valid when every
  step reads an own field or an element that is there.
\<close>

fun in_model :: "jsval \<Rightarrow> property \<Rightarrow> bool" where
  "in_model (JObject c p props) (Field key) = True"
| "in_model (JArray p xs) (Elem i) = (i \<le> length xs)"
| "in_model obj property = False"

fun has_own :: "jsval \<Rightarrow> property \<Rightarrow> bool" where
  "has_own (JObject c p props) (Field key) = (key \<in> fst ` set props)"
| "has_own (JArray p xs) (Elem i) = (i < length xs)"
| "has_own obj property = False"

fun valid_path :: "jsval \<Rightarrow> property list \<Rightarrow> bool" where
  "valid_path obj [] = True"
| "valid_path obj (q # path) = (has_own obj q \<and> valid_path (get obj q) path)"

section \<open>The binaries of a tree\<close>

text \<open>
  The addresses of the binary leaves of a tree, from left to right (for a proxy
  of a binary: of its target), and those of its \<^verbatim>\<open>File\<close> leaves. Two binaries are the
  same reference when their addresses are equal.
\<close>

fun binaries :: "jsval \<Rightarrow> nat list"
  and binaries_elems :: "jsval list \<Rightarrow> nat list"
  and binaries_props :: "(string \<times> jsval) list \<Rightarrow> nat list" where
  "binaries (JBlob c p a bytes) = [a]"
| "binaries (JArray p xs) = binaries_elems xs"
| "binaries (JObject c p props) = binaries_props props"
| "binaries v = []"
| "binaries_elems [] = []"
| "binaries_elems (v # xs) = binaries v @ binaries_elems xs"
| "binaries_props [] = []"
| "binaries_props ((k, v) # props) = binaries v @ binaries_props props"

text \<open>
  The binary leaves of a tree, from left to right, as \<^verbatim>\<open>append\<close> stores them: a \<^verbatim>\<open>File\<close>
  by reference, a \<^verbatim>\<open>Blob\<close> as a new \<^verbatim>\<open>File\<close> on its bytes. In \<open>plain_binaries\<close> no binary
  leaf is a proxy. \<open>binary_entries\<close> are the entries of a \<^verbatim>\<open>FormData\<close> that are not
  strings, in order, and \<open>entry_files\<close> the addresses of the files stored by
  reference among them.
\<close>

fun binary_leaves :: "jsval \<Rightarrow> entry list"
  and binary_leaves_elems :: "jsval list \<Rightarrow> entry list"
  and binary_leaves_props :: "(string \<times> jsval) list \<Rightarrow> entry list" where
  "binary_leaves (JBlob c p a bytes) = [stored (JBlob c p a bytes)]"
| "binary_leaves (JArray p xs) = binary_leaves_elems xs"
| "binary_leaves (JObject c p props) = binary_leaves_props props"
| "binary_leaves v = []"
| "binary_leaves_elems [] = []"
| "binary_leaves_elems (v # xs) = binary_leaves v @ binary_leaves_elems xs"
| "binary_leaves_props [] = []"
| "binary_leaves_props ((k, v) # props) = binary_leaves v @ binary_leaves_props props"

fun plain_binaries :: "jsval \<Rightarrow> bool"
  and plain_binaries_elems :: "jsval list \<Rightarrow> bool"
  and plain_binaries_props :: "(string \<times> jsval) list \<Rightarrow> bool" where
  "plain_binaries (JBlob c p a bytes) = (\<not> p)"
| "plain_binaries (JArray p xs) = plain_binaries_elems xs"
| "plain_binaries (JObject c p props) = plain_binaries_props props"
| "plain_binaries v = True"
| "plain_binaries_elems [] = True"
| "plain_binaries_elems (v # xs) = (plain_binaries v \<and> plain_binaries_elems xs)"
| "plain_binaries_props [] = True"
| "plain_binaries_props ((k, v) # props) = (plain_binaries v \<and> plain_binaries_props props)"

fun binary_entries :: "formdata \<Rightarrow> entry list" where
  "binary_entries [] = []"
| "binary_entries ((key, Text s) # formData) = binary_entries formData"
| "binary_entries ((key, e) # formData) = e # binary_entries formData"

fun entry_files :: "entry list \<Rightarrow> nat list" where
  "entry_files [] = []"
| "entry_files (FileRef a bytes # es) = a # entry_files es"
| "entry_files (e # es) = entry_files es"

fun files :: "jsval \<Rightarrow> nat list"
  and files_elems :: "jsval list \<Rightarrow> nat list"
  and files_props :: "(string \<times> jsval) list \<Rightarrow> nat list" where
  "files (JBlob FileClass p a bytes) = [a]"
| "files (JArray p xs) = files_elems xs"
| "files (JObject c p props) = files_props props"
| "files v = []"
| "files_elems [] = []"
| "files_elems (v # xs) = files v @ files_elems xs"
| "files_props [] = []"
| "files_props ((k, v) # props) = files v @ files_props props"

section \<open>The values of the round-trip property\<close>








text \<open>
  A state of the cloning algorithm allocates from \<open>n\<close> on: its next address and the
  clones in its memory are at \<open>n\<close> or above.
\<close>

definition fresh_from :: "nat \<Rightarrow> clone_state \<Rightarrow> bool" where
  "fresh_from n st \<longleftrightarrow> n \<le> fst st \<and> (\<forall>a' \<in> snd ` set (snd st). n \<le> a')"


section \<open>Example values\<close>

text \<open>A \<^verbatim>\<open>Date\<close> with no own property, and a \<^verbatim>\<open>File\<close> at the address 3.\<close>

definition a_date :: jsval where
  "a_date = JObject DateObject False []"

definition a_file :: jsval where
  "a_file = JBlob FileClass False 3 ''bytes''"

text \<open>The value \<^verbatim>\<open>{ n: 1 }\<close> of property P6.\<close>

definition p6_example :: jsval where
  "p6_example = JObject PlainObject False [(''n'', JNumber (Finite 1))]"

text \<open>
  The values \<^verbatim>\<open>{ avatar: file }\<close>, \<^verbatim>\<open>[{}, { a: 1 }]\<close> and \<^verbatim>\<open>{ x: NaN }\<close>.
\<close>

definition with_file :: jsval where
  "with_file = JObject PlainObject False [(''avatar'', a_file)]"




text \<open>The value \<^verbatim>\<open>{ user: { name: "Bob" }, tags: ["a","b"] }\<close> of property P5.\<close>

definition p5_example :: jsval where
  "p5_example =
     JObject PlainObject False
       [(''user'', JObject PlainObject False [(''name'', JString ''Bob'')]),
        (''tags'', JArray False [JString ''a'', JString ''b''])]"


text \<open>The value \<^verbatim>\<open>{ a: [{ c: null }] }\<close>.\<close>

definition nested :: jsval where
  "nested =
     JObject PlainObject False [(''a'', JArray False [JObject PlainObject False [(''c'', JNull)]])]"

section \<open>Facts about array indices\<close>

lemma digit_in_digits: "n < 10 \<Longrightarrow> digit n \<in> set ''0123456789''"
  unfolding digit_def by (rule nth_mem) simp

lemma decimal_digits: "set (decimal n) \<subseteq> set ''0123456789''"
proof (induction n rule: decimal.induct)
  case (1 n)
  show ?case
  proof (cases "n < 10")
    case True
    then show ?thesis using digit_in_digits [of n] by (subst decimal.simps) simp
  next
    case False
    then have "set (decimal (n div 10)) \<subseteq> set ''0123456789''" by (rule 1)
    moreover have "digit (n mod 10) \<in> set ''0123456789''" by (rule digit_in_digits) simp
    ultimately show ?thesis using False by (subst decimal.simps) simp
  qed
qed

lemma array_index_None:
  "c \<in> set key \<Longrightarrow> c \<notin> set ''0123456789'' \<Longrightarrow> array_index key = None"
  using decimal_digits [of "number_of key"] by (auto simp: array_index_def)

lemma array_index_names [simp]:
  "array_index ''when'' = None" "array_index ''n'' = None" "array_index ''c'' = None"
  "array_index ''a'' = None" "array_index ''b'' = None"
  by (rule array_index_None [of "CHR ''w''"], simp, simp)
     (rule array_index_None [of "CHR ''n''"], simp, simp,
      rule array_index_None [of "CHR ''c''"], simp, simp,
      rule array_index_None [of "CHR ''a''"], simp, simp,
      rule array_index_None [of "CHR ''b''"], simp, simp)


section \<open>Facts about the guards\<close>

lemma isProxiable_iff:
  "isProxiable v \<longleftrightarrow>
     (\<exists>p xs. v = JArray p xs) \<or> (\<exists>c p props. v = JObject c p props) \<or> (\<exists>c p a bytes. v = JBlob c p a bytes)"
  by (cases v) (simp_all add: isProxiable_def)

lemma isBlobLike_iff: "isBlobLike v \<longleftrightarrow> (\<exists>c p a bytes. v = JBlob c p a bytes)"
  by (cases v) (simp_all add: isBlobLike_def)

lemma guards_simps [simp]:
  "isProxiable (JArray p xs)" "\<not> isBlobLike (JArray p xs)"
  "isProxiable (JObject c p props)" "\<not> isBlobLike (JObject c p props)"
  "isProxiable (JBlob bc p a bytes)" "isBlobLike (JBlob bc p a bytes)"
  "\<not> isProxiable JUndefined" "\<not> isProxiable JNull" "\<not> isProxiable (JBoolean b)"
  "\<not> isProxiable (JNumber n)" "\<not> isProxiable (JString s)" "\<not> isProxiable (JBigInt i)"
  "\<not> isProxiable (JSymbol d)" "\<not> isProxiable (JFunction src)"
  "\<not> isBlobLike JUndefined" "\<not> isBlobLike JNull" "\<not> isBlobLike (JBoolean b)"
  "\<not> isBlobLike (JNumber n)" "\<not> isBlobLike (JString s)" "\<not> isBlobLike (JBigInt i)"
  "\<not> isBlobLike (JSymbol d)" "\<not> isBlobLike (JFunction src)"
  by (simp_all add: isProxiable_def isBlobLike_def)

lemma isBlobLike_isProxiable: "isBlobLike v \<Longrightarrow> isProxiable v"
  by (auto simp: isBlobLike_iff)

text \<open>
  The pattern matching of the model and the tests of the source agree: the array
  branch is \<^verbatim>\<open>Array.isArray\<close>, the object branch is proxiable, not binary and not an
  array.
\<close>

lemma Array_isArray_iff: "Array_isArray v \<longleftrightarrow> (\<exists>p xs. v = JArray p xs)"
  by (cases v) simp_all

lemma object_branch_iff:
  "\<not> Array_isArray v \<and> isProxiable v \<and> \<not> isBlobLike v \<longleftrightarrow> (\<exists>c p props. v = JObject c p props)"
  by (cases v) simp_all

section \<open>The flattener against the key grammar\<close>

lemma visited_item_below:
  "map (visited_item p) (map (below s) ls) = map (visited_item (spec_key p (segment s))) ls"
  by (induction ls) auto

lemma visited_of_leaf: "\<not> (isProxiable v \<and> \<not> isBlobLike v) \<Longrightarrow> visited v = [([], v)]"
  by (cases v) simp_all

lemma stored_text: "\<not> isProxiable v \<Longrightarrow> stored v = Text (ToString v)"
  by (cases v) simp_all

lemma appendToFormData_visited:
  "(isProxiable v \<and> \<not> isBlobLike v) \<or> p \<noteq> '''' \<Longrightarrow>
     appendToFormData fd v p = fd @ map (visited_item p) (visited v)"
  "appendToFormData_forEach fd xs i p = fd @ map (visited_item p) (visited_elems i xs)"
  "appendToFormData_entries fd props p = fd @ map (visited_item p) (visited_props props)"
  by (induction fd v p and fd xs i p and fd props p
      rule: appendToFormData_appendToFormData_forEach_appendToFormData_entries.induct)
    (auto simp: visited_item_below visited_of_leaf append_def stored_text spec_key_def
      segment_def Let_def)

lemma spec_entry_stored: "spec_entry v = stored v"
  by (cases v rule: stored.cases) (simp_all add: spec_entry_def)

lemma spec_item_visited: "spec_item p = visited_item p"
  by (rule ext) (auto simp: spec_entry_stored)

lemma visited_leaves:
  "records_only v \<Longrightarrow> visited v = leaves v"
  "records_only_elems xs \<Longrightarrow> visited_elems i xs = leaves_elems i xs"
  "records_only_props props \<Longrightarrow> visited_props props = leaves_props props"
  by (induction v and i xs and props rule: visited_visited_elems_visited_props.induct) auto

lemma getFormData_visited:
  "isProxiable v \<and> \<not> isBlobLike v \<Longrightarrow>
     getFormData \<lparr>data = v\<rparr> = map (visited_item '''') (visited v)"
  by (simp add: getFormData_def appendToFormData_visited)

lemma decimal_small [simp]:
  "decimal 0 = ''0''" "decimal (Suc 0) = ''1''" "decimal 1 = ''1''" "decimal 2 = ''2''"
  by (simp_all add: decimal.simps digit_def)

text \<open>
  Claim C4, as amended. For every tree of plain objects and arrays that holds no
  object of another class, \<^verbatim>\<open>getFormData\<close> produces exactly the entries of the
  specification's grammar, one per leaf, fields in iteration order and elements in
  index order: a root field \<open>k\<close> has the key \<open>k\<close>, a root element \<open>i\<close> the key \<open>i\<close>,
  and under a non-empty key \<open>p\<close> a field or an element has the key \<open>p[k]\<close> or \<open>p[i]\<close>
  (under the empty key, which only a field named by the empty string has, the
  grammar and the code both give \<open>k\<close> and \<open>i\<close>). The handle built from
  \<^verbatim>\<open>{ user: { name: "Bob" }, tags: ["a","b"] }\<close> renders exactly \<^verbatim>\<open>user[name]=Bob\<close>,
  \<^verbatim>\<open>tags[0]=a\<close>, \<^verbatim>\<open>tags[1]=b\<close>, in this order. In every tree, an object that is not an
  array or a binary, whatever its class, is entered like a plain object: it adds
  the entries of its own enumerable properties and none of its own.
\<close>

theorem flatten_key_grammar:
  "(isProxiable v \<and> \<not> isBlobLike v \<and> records_only v \<longrightarrow>
      getFormData \<lparr>data = v\<rparr> = spec_flatten v)
   \<and> (isProxiable v \<and> \<not> isBlobLike v \<longrightarrow>
      getFormData \<lparr>data = v\<rparr> = map (visited_item '''') (visited v))
   \<and> spec_path_key '''' [Field k] = k
   \<and> spec_path_key '''' [Elem i] = decimal i
   \<and> (p \<noteq> '''' \<longrightarrow> spec_path_key p (path @ [Field k]) = spec_path_key p path @ ''['' @ k @ '']'')
   \<and> (p \<noteq> '''' \<longrightarrow> spec_path_key p (path @ [Elem i]) = spec_path_key p path @ ''['' @ decimal i @ '']'')
   \<and> (\<exists>h. frmz heap p5_example None = Inr h
          \<and> getFormData h =
              [(''user[name]'', Text ''Bob''), (''tags[0]'', Text ''a''), (''tags[1]'', Text ''b'')])"
proof -
  have nonempty: "q \<noteq> '''' \<Longrightarrow> spec_path_key q ps \<noteq> ''''" for q ps
    by (induction ps arbitrary: q) (auto simp: spec_key_def)
  have snoc: "spec_path_key q (ps @ [s]) = spec_key (spec_path_key q ps) (segment s)" for q ps s
    by (induction ps arbitrary: q) auto
  have "frmz heap p5_example None =
          Inr \<lparr>data = JObject PlainObject True
                 [(''user'', JObject PlainObject True [(''name'', JString ''Bob'')]),
                  (''tags'', JArray True [JString ''a'', JString ''b''])]\<rparr>"
    by (simp add: frmz_def p5_example_def own_property_def kept_def)
  moreover have "getFormData \<lparr>data = JObject PlainObject True
                 [(''user'', JObject PlainObject True [(''name'', JString ''Bob'')]),
                  (''tags'', JArray True [JString ''a'', JString ''b''])]\<rparr> =
        [(''user[name]'', Text ''Bob''), (''tags[0]'', Text ''a''), (''tags[1]'', Text ''b'')]"
    by (simp add: getFormData_def)
  moreover have "getFormData \<lparr>data = v\<rparr> = spec_flatten v"
    if "isProxiable v \<and> \<not> isBlobLike v \<and> records_only v"
    using that by (simp add: getFormData_visited spec_flatten_def spec_item_visited visited_leaves)
  ultimately show ?thesis
    using nonempty [of p path]
    by (simp add: getFormData_visited snoc spec_key_def segment_def)
qed

theorem flatten_key_grammar_witness:
  "isProxiable (JArray True [JObject PlainObject True [(''k'', JNull)]])
   \<and> \<not> isBlobLike (JArray True [JObject PlainObject True [(''k'', JNull)]])
   \<and> records_only (JArray True [JObject PlainObject True [(''k'', JNull)]])
   \<and> getFormData \<lparr>data = JArray True [JObject PlainObject True [(''k'', JNull)]]\<rparr> = [(''0[k]'', Text ''null'')]
   \<and> spec_flatten (JArray True [JObject PlainObject True [(''k'', JNull)]]) = [(''0[k]'', Text ''null'')]
   \<and> ''0'' \<noteq> '''' \<and> spec_path_key ''0'' ([] @ [Field ''k'']) = ''0[k]''
   \<and> spec_path_key ''0'' ([] @ [Elem 1]) = ''0[1]''"
  using flatten_key_grammar [of "JArray True [JObject PlainObject True [(''k'', JNull)]]" "''k''" 1 "''0''" "[]" 0]
  by (simp add: spec_flatten_def spec_key_def segment_def spec_entry_def)

text \<open>
  The claim as stated fails on a tree that holds a \<^verbatim>\<open>Date\<close>. After the write
  \<^verbatim>\<open>data.when = new Date()\<close> on the handle built from \<^verbatim>\<open>{ n: 1 }\<close>, the grammar of the
  specification has an entry at the key \<^verbatim>\<open>when\<close> (a \<^verbatim>\<open>Date\<close> is of the kind \<open>Unknown\<close>,
  appended as its text), and the code renders none: it enters the \<^verbatim>\<open>Date\<close> as an
  object with no property.
\<close>

theorem flatten_key_grammar_counterexample:
  "spec_kind a_date = Unknown
   \<and> frmz 4 p6_example None = Inr \<lparr>data = JObject PlainObject True [(''n'', JNumber (Finite 1))]\<rparr>
   \<and> writes \<lparr>data = JObject PlainObject True [(''n'', JNumber (Finite 1))]\<rparr>
        [([], Field ''when'', a_date)]
      = Some \<lparr>data = JObject PlainObject True
                [(''n'', JNumber (Finite 1)), (''when'', JObject DateObject True [])]\<rparr>
   \<and> getFormData \<lparr>data = JObject PlainObject True
                [(''n'', JNumber (Finite 1)), (''when'', JObject DateObject True [])]\<rparr>
       = [(''n'', Text ''1'')]
   \<and> spec_flatten (JObject PlainObject True
                [(''n'', JNumber (Finite 1)), (''when'', JObject DateObject True [])])
       = [(''n'', Text ''1''), (''when'', Text (ToString (JObject DateObject True [])))]"
  by (simp add: a_date_def p6_example_def frmz_def own_property_def kept_def assign_def
      handler_set_def set_field_def getFormData_def spec_flatten_def spec_entry_def
      spec_key_def segment_def decimal_int_def)

section \<open>Empty containers\<close>

text \<open>
  Claim C10. A field or an element whose value is an empty object or an empty array
  adds no entry, at it or under it: flattening an empty container at any key
  leaves the transport object as it was, and a loop step on such a value is the
  same as skipping it. The handle built from \<^verbatim>\<open>{ a: {}, b: [] }\<close> renders the empty
  transport object, the same as the handle built from \<^verbatim>\<open>{}\<close>: the encoding does not
  tell them apart.
\<close>

theorem empty_containers_omitted:
  "appendToFormData fd (JObject c p []) key = fd
   \<and> appendToFormData fd (JArray p []) key = fd
   \<and> appendToFormData_entries fd ((k, JObject c p []) # rest) key = appendToFormData_entries fd rest key
   \<and> appendToFormData_entries fd ((k, JArray p []) # rest) key = appendToFormData_entries fd rest key
   \<and> appendToFormData_forEach fd (JObject c p [] # xs) i key = appendToFormData_forEach fd xs (Suc i) key
   \<and> appendToFormData_forEach fd (JArray p [] # xs) i key = appendToFormData_forEach fd xs (Suc i) key
   \<and> (\<exists>h. frmz heap (JObject PlainObject False
              [(''a'', JObject PlainObject False []), (''b'', JArray False [])]) None = Inr h
          \<and> getFormData h = []
          \<and> (\<exists>h'. frmz heap (JObject PlainObject False []) None = Inr h'
                \<and> getFormData h' = getFormData h))"
proof -
  have "frmz heap (JObject PlainObject False
              [(''a'', JObject PlainObject False []), (''b'', JArray False [])]) None =
        Inr \<lparr>data = JObject PlainObject True
              [(''a'', JObject PlainObject True []), (''b'', JArray True [])]\<rparr>"
    by (simp add: frmz_def own_property_def kept_def)
  moreover have "frmz heap (JObject PlainObject False []) None =
        Inr \<lparr>data = JObject PlainObject True []\<rparr>"
    by (simp add: frmz_def)
  ultimately show ?thesis
    by (simp add: getFormData_def)
qed

section \<open>Inference on arrays\<close>

lemma inferSchema_items_map:
  "inferSchema_items xs elementTypes = elementTypes @ map item_schema xs"
  by (induction xs arbitrary: elementTypes) (simp_all add: item_schema_def)

lemma inferSchema_keys_map:
  "inferSchema_keys props shape = shape @ map (\<lambda>kv. (fst kv, item_schema (snd kv))) props"
  by (induction props arbitrary: shape) (auto simp: item_schema_def)



text \<open>
  Claim C8. \<^verbatim>\<open>inferSchema\<close> on an array infers one schema per element, each from
  that element alone (\<open>item_schema\<close>, the chain of tests of the loop); for a
  non-empty array the element schema is the union of these schemas in the order of
  the elements, one option per element with duplicates kept, and for the empty array
  it is \<^verbatim>\<open>z.unknown()\<close>.
\<close>

theorem infer_sequence:
  "inferSchema (JArray p xs) =
     ZArray (if xs \<noteq> [] then ZUnion (map item_schema xs) else ZUnknown)
   \<and> length (map item_schema xs) = length xs
   \<and> inferSchema (JArray p []) = ZArray ZUnknown
   \<and> inferSchema (JArray p [JNumber (Finite 1), JString ''a'', JNumber (Finite 1)]) =
       ZArray (ZUnion [ZNumber, ZString, ZNumber])"
  by (simp add: inferSchema_items_map item_schema_def)

section \<open>The errors of the entry point\<close>

lemma collect_Inl: "collect rs = Inl e \<Longrightarrow> Inl e \<in> set rs"
  by (induction rs rule: collect.induct) (auto split: sum.splits)

lemma first_valid_Inl: "first_valid rs = Inl e \<Longrightarrow> e = ZodError"
  by (induction rs rule: first_valid.induct) auto

lemma parse_error: "parse s v = Inl e \<Longrightarrow> e = ZodError"
proof (induction s v arbitrary: e rule: parse.induct)
  case (8 s v)
  then show ?case
    by (auto split: jsval.splits sum.splits if_splits dest!: collect_Inl)
next
  case (9 options v)
  then show ?case by (auto dest: first_valid_Inl)
next
  case (10 shape v)
  then show ?case
    by (auto split: option.splits sum.splits dest!: collect_Inl)
qed (auto split: if_splits)

lemma structuredClone_error:
  "structuredClone st v = Inl e \<Longrightarrow> e = DataCloneError"
  "structuredClone_elems st xs = Inl e \<Longrightarrow> e = DataCloneError"
  "structuredClone_fields st props = Inl e \<Longrightarrow> e = DataCloneError"
  by (induction st v and st xs and st props arbitrary: e and e and e
      rule: structuredClone_structuredClone_elems_structuredClone_fields.induct)
    (auto split: if_splits option.splits sum.splits prod.splits objclass.splits)

text \<open>
  Claim C2, as amended. The entry point raises the root type error exactly for the
  values that \<^verbatim>\<open>isProxiable\<close> refuses, those whose \<^verbatim>\<open>typeof\<close> is not \<^verbatim>\<open>"object"\<close> and
  \<^verbatim>\<open>null\<close>: numbers, strings, booleans, \<^verbatim>\<open>null\<close>, \<^verbatim>\<open>undefined\<close>, functions, symbols and
  bigints; it does so whatever schema is given, before anything else. A bare
  binary at the root is an object and passes the gate: the entry point returns a
  handle on a proxy of its clone.
\<close>

theorem root_type_gate:
  "(frmz heap v schema = Inl RootTypeError \<longleftrightarrow> \<not> isProxiable v)
   \<and> (\<not> isProxiable v \<longleftrightarrow> typeof v \<noteq> ''object'' \<or> v = JNull)
   \<and> (spec_kind v \<in> {NullKind, UndefinedKind, BooleanKind, NumberKind, StringKind}
        \<longrightarrow> frmz heap v schema = Inl RootTypeError)
   \<and> frmz heap (JBlob c False a bytes) None = Inr \<lparr>data = JBlob c True heap bytes\<rparr>"
proof -
  have "frmz heap v schema \<noteq> Inl RootTypeError" if "isProxiable v"
    using that
    by (auto simp: frmz_def Let_def split: sum.splits option.splits prod.splits
        dest: parse_error structuredClone_error)
  moreover have "frmz heap v schema = Inl RootTypeError" if "\<not> isProxiable v"
    using that by (simp add: frmz_def)
  moreover have "\<not> isProxiable v"
    if "spec_kind v \<in> {NullKind, UndefinedKind, BooleanKind, NumberKind, StringKind}"
    using that by (cases v rule: spec_kind.cases) simp_all
  moreover have "frmz heap (JBlob c False a bytes) None = Inr \<lparr>data = JBlob c True heap bytes\<rparr>"
    by (simp add: frmz_def)
  ultimately show ?thesis
    by (auto simp: isProxiable_def)
qed

theorem root_type_gate_witness:
  "spec_kind (JNumber (Finite 7)) \<in> {NullKind, UndefinedKind, BooleanKind, NumberKind, StringKind}
   \<and> frmz 0 (JNumber (Finite 7)) (Some ZNumber) = Inl RootTypeError
   \<and> \<not> isProxiable (JNumber (Finite 7))"
  using root_type_gate [of 0 "JNumber (Finite 7)" "Some ZNumber"]
  by simp

text \<open>
  The claim as stated fails for a bare binary at the root: it is neither a Record
  nor a Sequence, and the entry point returns a handle on it (whose rendering is
  empty).
\<close>

theorem root_type_gate_counterexample:
  "spec_kind a_file \<noteq> Record \<and> spec_kind a_file \<noteq> Sequence
   \<and> frmz 4 a_file None = Inr \<lparr>data = JBlob FileClass True 4 ''bytes''\<rparr>
   \<and> frmz 4 a_file None \<noteq> Inl RootTypeError
   \<and> getFormData \<lparr>data = JBlob FileClass True 4 ''bytes''\<rparr> = []"
  by (simp add: a_file_def frmz_def getFormData_def)

section \<open>Values of no known kind\<close>

text \<open>
  Claim C3, as amended. For every value whose \<^verbatim>\<open>typeof\<close> is \<^verbatim>\<open>"function"\<close>,
  \<^verbatim>\<open>"symbol"\<close> or \<^verbatim>\<open>"bigint"\<close>, \<^verbatim>\<open>inferSchema\<close> gives \<^verbatim>\<open>z.unknown()\<close>, at the root and
  as an item of a container, so the value passes validation under its inferred
  schema and is returned as it is. A \<^verbatim>\<open>Date\<close> (any object that is not an array or a
  binary) is inferred as an object of its own enumerable properties.
\<close>

theorem infer_unknown:
  "(typeof v \<in> {''function'', ''symbol'', ''bigint''} \<longrightarrow>
      inferSchema v = ZUnknown \<and> item_schema v = ZUnknown \<and> parse (inferSchema v) v = Inr v)
   \<and> inferSchema (JObject DateObject p props) =
       ZObject (map (\<lambda>kv. (fst kv, item_schema (snd kv))) props)"
  by (cases v) (simp_all add: item_schema_def inferSchema_keys_map)

theorem infer_unknown_witness:
  "typeof (JFunction ''() => 1'') \<in> {''function'', ''symbol'', ''bigint''}
   \<and> inferSchema (JFunction ''() => 1'') = ZUnknown
   \<and> item_schema (JFunction ''() => 1'') = ZUnknown
   \<and> parse (inferSchema (JFunction ''() => 1'')) (JFunction ''() => 1'') = Inr (JFunction ''() => 1'')"
  using infer_unknown [of "JFunction ''() => 1''"]
  by simp

text \<open>
  The claim as stated fails for a \<^verbatim>\<open>Date\<close>: it is of the kind \<open>Unknown\<close> of the data
  model, and its inferred schema is the object schema with no key, not
  \<^verbatim>\<open>z.unknown()\<close>.
\<close>

theorem infer_unknown_counterexample:
  "spec_kind a_date = Unknown
   \<and> inferSchema a_date = ZObject []
   \<and> inferSchema a_date \<noteq> ZUnknown"
  by (simp add: a_date_def)

section \<open>The wrapping invariant under writes\<close>

lemma deep_wrapped_leaf: "\<not> (isProxiable v \<and> \<not> isBlobLike v) \<Longrightarrow> deep_wrapped v"
  by (cases v) simp_all

lemma createDeepProxy_wrapped:
  "isProxiable v \<Longrightarrow> deep_wrapped (createDeepProxy v)"
  "deep_wrapped_elems (createDeepProxy_elems xs)"
  "deep_wrapped_props (createDeepProxy_fields props)"
  by (induction v and xs and props rule: createDeepProxy_createDeepProxy_elems_createDeepProxy_fields.induct)
     (auto simp: deep_wrapped_leaf)

lemma deep_wrapped_elems_iff: "deep_wrapped_elems xs \<longleftrightarrow> (\<forall>x \<in> set xs. deep_wrapped x)"
  by (induction xs) auto

lemma deep_wrapped_props_iff: "deep_wrapped_props props \<longleftrightarrow> (\<forall>kv \<in> set props. deep_wrapped (snd kv))"
  by (induction props) auto

lemma replace_field_wrapped:
  "deep_wrapped_props props \<Longrightarrow> deep_wrapped v \<Longrightarrow> deep_wrapped_props (replace_field props key v)"
  by (induction props) auto

lemma insert_index_wrapped:
  "deep_wrapped_props props \<Longrightarrow> deep_wrapped v \<Longrightarrow> deep_wrapped_props (insert_index props i key v)"
  by (induction props) (auto split: option.splits)

lemma snoc_props_wrapped:
  "deep_wrapped_props props \<Longrightarrow> deep_wrapped v \<Longrightarrow> deep_wrapped_props (props @ [(key, v)])"
  by (induction props) auto

lemma set_field_wrapped:
  "deep_wrapped_props props \<Longrightarrow> deep_wrapped v \<Longrightarrow> deep_wrapped_props (set_field props key v)"
  by (simp add: set_field_def replace_field_wrapped insert_index_wrapped snoc_props_wrapped
      split: option.splits)

lemma list_update_wrapped:
  "deep_wrapped_elems xs \<Longrightarrow> deep_wrapped v \<Longrightarrow> deep_wrapped_elems (xs[i := v])"
  by (induction xs arbitrary: i) (auto split: nat.splits)

lemma snoc_wrapped:
  "deep_wrapped_elems xs \<Longrightarrow> deep_wrapped v \<Longrightarrow> deep_wrapped_elems (xs @ [v])"
  by (induction xs) auto

lemma Reflect_set_wrapped:
  "deep_wrapped t \<Longrightarrow> deep_wrapped v \<Longrightarrow> Reflect_set t q v = Some t' \<Longrightarrow> deep_wrapped t'"
  by (induction t q v rule: Reflect_set.induct)
    (auto simp: set_field_wrapped list_update_wrapped snoc_wrapped split: if_splits)

lemma own_property_wrapped: "deep_wrapped_props props \<Longrightarrow> deep_wrapped (own_property props key)"
  by (auto simp: own_property_def deep_wrapped_props_iff split: option.splits dest!: map_of_SomeD)

lemma get_wrapped: "deep_wrapped t \<Longrightarrow> deep_wrapped (get t q)"
  by (induction t q rule: get.induct) (auto simp: own_property_wrapped deep_wrapped_elems_iff)

lemma handler_set_wrapped:
  "deep_wrapped t \<Longrightarrow> handler_set t q v = Some (t', ok) \<Longrightarrow> deep_wrapped t'"
  by (auto simp: handler_set_def Let_def split: option.splits if_splits
      intro: Reflect_set_wrapped createDeepProxy_wrapped deep_wrapped_leaf)

lemma Reflect_set_Some: "Reflect_set t q v = Some t' \<Longrightarrow> isProxiable t \<and> \<not> isBlobLike t"
  by (induction t q v rule: Reflect_set.induct) auto

lemma wrapped_container_is_proxy: "deep_wrapped t \<Longrightarrow> isProxiable t \<Longrightarrow> \<not> isBlobLike t \<Longrightarrow> is_proxy t"
  by (cases t) auto

lemma assign_wrapped:
  "deep_wrapped t \<Longrightarrow> assign t q v = Some (t', ok) \<Longrightarrow> deep_wrapped t'"
  by (auto simp: assign_def split: if_splits option.splits
      dest: handler_set_wrapped Reflect_set_Some wrapped_container_is_proxy)

lemma write_at_wrapped:
  "deep_wrapped d \<Longrightarrow> write_at d path q v = Some (d', ok) \<Longrightarrow> deep_wrapped d'"
proof (induction path arbitrary: d d' ok)
  case Nil
  then show ?case by (auto dest: assign_wrapped)
next
  case (Cons s path)
  from Cons.prems(2) obtain child where
    child: "write_at (get d s) path q v = Some (child, ok)" and
    put: "Reflect_set d s child = Some d'"
    by (auto split: option.splits prod.splits)
  have "deep_wrapped (get d s)" using Cons.prems(1) by (rule get_wrapped)
  then have "deep_wrapped child" using child by (rule Cons.IH)
  with Cons.prems(1) show ?case using put by (rule Reflect_set_wrapped)
qed

lemma writes_wrapped:
  "deep_wrapped (data h) \<Longrightarrow> writes h ws = Some h' \<Longrightarrow> deep_wrapped (data h')"
proof (induction ws arbitrary: h)
  case Nil
  then show ?case by simp
next
  case (Cons w ws)
  obtain path q v where w: "w = (path, q, v)" by (cases w)
  from Cons.prems(2) obtain d ok where
    step: "write_at (data h) path q v = Some (d, ok)" and
    rest: "writes (h\<lparr>data := d\<rparr>) ws = Some h'"
    by (auto simp: w split: option.splits prod.splits)
  have "deep_wrapped d" using Cons.prems(1) step by (rule write_at_wrapped)
  then have "deep_wrapped (data (h\<lparr>data := d\<rparr>))" by simp
  then show ?case using rest by (rule Cons.IH)
qed

lemma createDeepProxy_wrapped_all: "deep_wrapped (createDeepProxy v)"
  by (cases v) (simp_all add: createDeepProxy_wrapped)

lemma map_of_replace_field:
  "key \<in> fst ` set props \<Longrightarrow> map_of (replace_field props key v) key = Some v"
  by (induction props) force+

lemma map_of_insert_index:
  "key \<notin> fst ` set props \<Longrightarrow> map_of (insert_index props i key v) key = Some v"
  by (induction props) (auto split: option.splits)

lemma map_of_set_field:
  assumes "key \<in> fst ` set props \<or> key \<noteq> ''__proto__''"
  shows "map_of (set_field props key v) key = Some v"
proof (cases "key \<in> fst ` set props")
  case True
  then show ?thesis by (simp add: set_field_def map_of_replace_field)
next
  case False
  with assms have "key \<noteq> ''__proto__''" by simp
  with False show ?thesis
    by (simp add: set_field_def map_of_insert_index map_add_Some_iff map_of_eq_None_iff
        split: option.splits)
qed

lemma Reflect_set_get:
  "Reflect_set t q v = Some t' \<Longrightarrow> has_own t q \<or> q \<noteq> Field ''__proto__'' \<Longrightarrow> get t' q = v"
proof (induction t q v rule: Reflect_set.induct)
  case (1 c p props key v)
  then have "key \<in> fst ` set props \<or> key \<noteq> ''__proto__''" by simp
  then have "map_of (set_field props key v) key = Some v" by (rule map_of_set_field)
  with 1(1) show ?case by (auto simp: own_property_def)
next
  case (2 p xs i v)
  then show ?case by (auto simp: nth_append split: if_splits)
qed auto

lemma handler_set_ok: "handler_set t q v = Some (t', ok) \<Longrightarrow> ok"
  by (auto simp: handler_set_def Let_def split: option.splits)

lemma assign_get:
  "assign t q v = Some (t', ok) \<Longrightarrow> q \<noteq> Field ''__proto__'' \<Longrightarrow>
     get t' q = (if is_proxy t \<and> isProxiable v \<and> \<not> isBlobLike v then createDeepProxy v else v)"
  by (auto simp: assign_def handler_set_def Let_def split: if_splits option.splits dest: Reflect_set_get)

lemma write_at_container:
  "write_at t path q v = Some r \<Longrightarrow> isProxiable t \<and> \<not> isBlobLike t"
  by (cases path)
    (auto simp: assign_def handler_set_def Let_def split: if_splits option.splits prod.splits
      dest: Reflect_set_Some)

lemma get_container_own: "isProxiable (get t s) \<Longrightarrow> has_own t s"
  by (induction t s rule: get.induct)
    (force simp: own_property_def split: option.splits if_splits dest!: map_of_SomeD)+

lemma read_at_snoc: "read_at d (path @ [q]) = get (read_at d path) q"
  by (induction path arbitrary: d) auto

lemma write_at_read:
  "write_at d path q v = Some (d', ok) \<Longrightarrow> q \<noteq> Field ''__proto__'' \<Longrightarrow>
     read_at d' (path @ [q]) =
       (if is_proxy (read_at d path) \<and> isProxiable v \<and> \<not> isBlobLike v then createDeepProxy v else v)"
proof (induction path arbitrary: d d' ok)
  case Nil
  then show ?case by (simp add: assign_get)
next
  case (Cons s path)
  from Cons.prems(1) obtain child where
    child: "write_at (get d s) path q v = Some (child, ok)" and
    put: "Reflect_set d s child = Some d'"
    by (auto split: option.splits prod.splits)
  have "has_own d s" using write_at_container [OF child] by (simp add: get_container_own)
  then have "get d' s = child" using Reflect_set_get [OF put] by simp
  then show ?case using Cons.IH [OF child Cons.prems(2)] by simp
qed

lemma in_model_Reflect_set: "in_model t q \<Longrightarrow> \<exists>t'. Reflect_set t q v = Some t'"
  by (induction t q rule: in_model.induct) auto

lemma has_own_in_model: "has_own t q \<Longrightarrow> in_model t q"
  by (induction t q rule: has_own.induct) auto

lemma in_model_handler_set:
  assumes "in_model t q"
  shows "\<exists>t'. handler_set t q v = Some (t', True)"
proof -
  obtain t' where
    "Reflect_set t q (if isProxiable v \<and> \<not> isBlobLike v then createDeepProxy v else v) = Some t'"
    using in_model_Reflect_set [OF assms] by blast
  then show ?thesis by (simp add: handler_set_def)
qed

lemma in_model_assign: "in_model t q \<Longrightarrow> \<exists>t'. assign t q v = Some (t', True)"
  using in_model_Reflect_set [of t q v] in_model_handler_set [of t q v]
  by (auto simp: assign_def)

lemma write_at_succeeds:
  "valid_path d path \<Longrightarrow> in_model (read_at d path) q \<Longrightarrow> \<exists>d'. write_at d path q v = Some (d', True)"
proof (induction path arbitrary: d)
  case Nil
  then show ?case by (simp add: in_model_assign)
next
  case (Cons s path)
  then obtain child where child: "write_at (get d s) path q v = Some (child, True)"
    by fastforce
  from Cons.prems(1) have "in_model d s" by (simp add: has_own_in_model)
  then obtain d' where "Reflect_set d s child = Some d'"
    using in_model_Reflect_set by blast
  with child show ?case by simp
qed


lemma read_at_wrapped: "deep_wrapped d \<Longrightarrow> deep_wrapped (read_at d path)"
  by (induction path arbitrary: d) (auto intro: get_wrapped)

lemma write_at_target:
  "write_at d path q v = Some (d', ok) \<Longrightarrow> isProxiable (read_at d path) \<and> \<not> isBlobLike (read_at d path)"
proof (induction path arbitrary: d d' ok)
  case Nil
  then show ?case
    by (auto simp: assign_def handler_set_def Let_def split: if_splits option.splits dest: Reflect_set_Some)
next
  case (Cons s path)
  then show ?case by (auto split: option.splits prod.splits)
qed

lemma write_at_read_wrapped:
  assumes "deep_wrapped d" "write_at d path q v = Some (d', ok)" "q \<noteq> Field ''__proto__''"
  shows "read_at d' (path @ [q]) = (if isProxiable v \<and> \<not> isBlobLike v then createDeepProxy v else v)"
proof -
  have "is_proxy (read_at d path)"
    using assms write_at_target [OF assms(2)] read_at_wrapped [OF assms(1), of path]
    by (auto intro: wrapped_container_is_proxy)
  then show ?thesis using write_at_read [OF assms(2) assms(3)] by simp
qed



lemma frmz_wrapped: "frmz heap v schema = Inr h \<Longrightarrow> deep_wrapped (data h)"
  by (auto simp: frmz_def Let_def createDeepProxy_wrapped_all
      split: if_splits sum.splits prod.splits)

lemma unwrap_createDeepProxy:
  "unwrap (createDeepProxy v) = unwrap v"
  "unwrap_elems (createDeepProxy_elems xs) = unwrap_elems xs"
  "unwrap_props (createDeepProxy_fields props) = unwrap_props props"
  by (induction v and xs and props
      rule: createDeepProxy_createDeepProxy_elems_createDeepProxy_fields.induct) auto

lemma structuredClone_unwrapped:
  "structuredClone st v = Inr (v', st') \<Longrightarrow> unwrap v' = v'"
  "structuredClone_elems st xs = Inr (xs', st') \<Longrightarrow> unwrap_elems xs' = xs'"
  "structuredClone_fields st props = Inr (props', st') \<Longrightarrow> unwrap_props props' = props'"
  by (induction st v and st xs and st props arbitrary: v' st' and xs' st' and props' st'
      rule: structuredClone_structuredClone_elems_structuredClone_fields.induct)
    (auto split: if_splits option.splits sum.splits prod.splits objclass.splits)

lemma frmz_unwrap:
  assumes "frmz heap v schema = Inr h"
  shows "\<exists>parsed copy st.
           parse (case schema of Some s \<Rightarrow> s | None \<Rightarrow> inferSchema v) v = Inr parsed
           \<and> structuredClone (heap, []) parsed = Inr (copy, st)
           \<and> unwrap (data h) = copy"
proof -
  from assms obtain parsed copy st where
    a: "parse (case schema of Some s \<Rightarrow> s | None \<Rightarrow> inferSchema v) v = Inr parsed" and
    b: "structuredClone (heap, []) parsed = Inr (copy, st)" and
    c: "data h = createDeepProxy copy"
    by (auto simp: frmz_def Let_def split: if_splits sum.splits prod.splits)
  have "unwrap (data h) = copy"
    using structuredClone_unwrapped(1) [OF b] by (simp add: c unwrap_createDeepProxy)
  with a b show ?thesis by blast
qed

text \<open>
  Claim C5. \<^verbatim>\<open>createDeepProxy\<close> keeps the tree it is given and wraps every array and
  object of it: behind the proxies the tree is the same, and every array and
  object of the result is a proxy. So the data of a new handle is the clone of the
  validated value with every array and object wrapped; every sequence of writes
  through the handle keeps every array and object wrapped, and a write to a field
  of an object or to an element of an array of the data (at an index up to its
  length) goes through and keeps them wrapped; and a write through the
  handle stores the deep proxy of a container value (the same tree, every array
  and object of it wrapped), and a binary or a primitive as it is (for a binary:
  the same address), which is what a read at the same place returns. The name
  \<^verbatim>\<open>__proto__\<close> is left out of this last part: under it the host keeps the value as
  the prototype of the object, not as a property.
\<close>

theorem wrapping_invariant:
  "deep_wrapped (createDeepProxy v)
   \<and> unwrap (createDeepProxy v) = unwrap v
   \<and> (frmz heap v schema = Inr h \<longrightarrow>
        deep_wrapped (data h)
        \<and> (\<exists>parsed copy st.
              parse (case schema of Some s \<Rightarrow> s | None \<Rightarrow> inferSchema v) v = Inr parsed
              \<and> structuredClone (heap, []) parsed = Inr (copy, st)
              \<and> unwrap (data h) = copy))
   \<and> (deep_wrapped (data h) \<and> writes h ws = Some h' \<longrightarrow> deep_wrapped (data h'))
   \<and> (deep_wrapped d \<and> write_at d path q w = Some (d', ok) \<longrightarrow> deep_wrapped d')
   \<and> (deep_wrapped d \<and> valid_path d path \<and> in_model (read_at d path) q \<longrightarrow>
        (\<exists>d''. write_at d path q w = Some (d'', True) \<and> deep_wrapped d''))
   \<and> (deep_wrapped d \<and> write_at d path q w = Some (d', ok) \<and> q \<noteq> Field ''__proto__'' \<longrightarrow>
        read_at d' (path @ [q]) =
            (if isProxiable w \<and> \<not> isBlobLike w then createDeepProxy w else w)
        \<and> unwrap (read_at d' (path @ [q])) = unwrap w
        \<and> deep_wrapped (read_at d' (path @ [q])))"
proof (intro conjI impI)
  show "deep_wrapped (createDeepProxy v)" by (rule createDeepProxy_wrapped_all)
next
  show "unwrap (createDeepProxy v) = unwrap v" by (rule unwrap_createDeepProxy)
next
  assume "frmz heap v schema = Inr h"
  then show "deep_wrapped (data h)" by (rule frmz_wrapped)
next
  assume "frmz heap v schema = Inr h"
  then show "\<exists>parsed copy st.
      parse (case schema of Some s \<Rightarrow> s | None \<Rightarrow> inferSchema v) v = Inr parsed
      \<and> structuredClone (heap, []) parsed = Inr (copy, st) \<and> unwrap (data h) = copy"
    by (rule frmz_unwrap)
next
  assume "deep_wrapped (data h) \<and> writes h ws = Some h'"
  then show "deep_wrapped (data h')" by (auto intro: writes_wrapped)
next
  assume "deep_wrapped d \<and> write_at d path q w = Some (d', ok)"
  then show "deep_wrapped d'" by (auto intro: write_at_wrapped)
next
  assume a: "deep_wrapped d \<and> valid_path d path \<and> in_model (read_at d path) q"
  then obtain d'' where "write_at d path q w = Some (d'', True)"
    using write_at_succeeds [of d path q w] by blast
  with a show "\<exists>d''. write_at d path q w = Some (d'', True) \<and> deep_wrapped d''"
    by (auto intro: write_at_wrapped)
next
  assume a: "deep_wrapped d \<and> write_at d path q w = Some (d', ok) \<and> q \<noteq> Field ''__proto__''"
  then show r: "read_at d' (path @ [q]) =
      (if isProxiable w \<and> \<not> isBlobLike w then createDeepProxy w else w)"
    by (auto dest: write_at_read_wrapped)
  then show "unwrap (read_at d' (path @ [q])) = unwrap w"
    by (simp add: unwrap_createDeepProxy)
  from a have "deep_wrapped d'" by (auto intro: write_at_wrapped)
  then show "deep_wrapped (read_at d' (path @ [q]))" by (rule read_at_wrapped)
qed

theorem wrapping_invariant_witness:
  "createDeepProxy nested =
     JObject PlainObject True [(''a'', JArray True [JObject PlainObject True [(''c'', JNull)]])]
   \<and> unwrap (JObject PlainObject True [(''a'', JArray True [JObject PlainObject True [(''c'', JNull)]])])
       = nested
   \<and> frmz 4 nested None =
       Inr \<lparr>data = JObject PlainObject True
              [(''a'', JArray True [JObject PlainObject True [(''c'', JNull)]])]\<rparr>
   \<and> writes \<lparr>data = JObject PlainObject True
              [(''a'', JArray True [JObject PlainObject True [(''c'', JNull)]])]\<rparr>
        [([Field ''a''], Elem 1, nested), ([Field ''a'', Elem 0], Field ''c'', a_file)]
      = Some \<lparr>data = JObject PlainObject True
                [(''a'', JArray True
                   [JObject PlainObject True [(''c'', a_file)],
                    JObject PlainObject True
                      [(''a'', JArray True [JObject PlainObject True [(''c'', JNull)]])]])]\<rparr>
   \<and> write_at (JObject PlainObject True [(''a'', JArray True [])]) [Field ''a''] (Elem 0) nested
       = Some (JObject PlainObject True [(''a'', JArray True
           [JObject PlainObject True
              [(''a'', JArray True [JObject PlainObject True [(''c'', JNull)]])]])], True)
   \<and> valid_path (JObject PlainObject True [(''a'', JArray True [])]) [Field ''a'']
   \<and> in_model (read_at (JObject PlainObject True [(''a'', JArray True [])]) [Field ''a'']) (Elem 0)
   \<and> Elem 0 \<noteq> Field ''__proto__''
   \<and> read_at (JObject PlainObject True [(''a'', JArray True
           [JObject PlainObject True
              [(''a'', JArray True [JObject PlainObject True [(''c'', JNull)]])]])])
         ([Field ''a''] @ [Elem 0])
       = JObject PlainObject True [(''a'', JArray True [JObject PlainObject True [(''c'', JNull)]])]"
  using wrapping_invariant [where heap = 4 and v = nested and schema = None
      and h = "\<lparr>data = JObject PlainObject True
              [(''a'', JArray True [JObject PlainObject True [(''c'', JNull)]])]\<rparr>"
      and ws = "[([Field ''a''], Elem 1, nested), ([Field ''a'', Elem 0], Field ''c'', a_file)]"
      and h' = "\<lparr>data = JObject PlainObject True
                [(''a'', JArray True
                   [JObject PlainObject True [(''c'', a_file)],
                    JObject PlainObject True
                      [(''a'', JArray True [JObject PlainObject True [(''c'', JNull)]])]])]\<rparr>"
      and d = "JObject PlainObject True [(''a'', JArray True [])]"
      and path = "[Field ''a'']" and q = "Elem 0" and w = nested
      and d' = "JObject PlainObject True [(''a'', JArray True
           [JObject PlainObject True
              [(''a'', JArray True [JObject PlainObject True [(''c'', JNull)]])]])]"
      and ok = True]
  by (simp add: frmz_def nested_def a_file_def own_property_def kept_def assign_def
      handler_set_def set_field_def)

section \<open>Writes never fail\<close>

text \<open>
  Claim C7. Every write of any value to a field of an object or to an element of
  an array of the handle succeeds and reports \<open>True\<close>: the \<^verbatim>\<open>set\<close> trap returns
  \<open>True\<close> whatever the value is, and no schema is consulted. The handle built from
  \<^verbatim>\<open>{ n: 1 }\<close> accepts the write \<^verbatim>\<open>data.n = "two"\<close>, although the data then fails the
  schema inferred at construction.
\<close>

theorem writes_always_succeed:
  "(handler_set t q v = Some (t', ok) \<longrightarrow> ok)
   \<and> (in_model t q \<longrightarrow> (\<exists>t'. handler_set t q v = Some (t', True)))
   \<and> (valid_path d path \<and> in_model (read_at d path) q \<longrightarrow>
        (\<exists>d'. write_at d path q v = Some (d', True)))
   \<and> (\<exists>h d'. frmz heap p6_example None = Inr h
        \<and> write_at (data h) [] (Field ''n'') (JString ''two'') = Some (d', True)
        \<and> parse (inferSchema p6_example) d' = Inl ZodError)"
proof -
  have "frmz heap p6_example None =
          Inr \<lparr>data = JObject PlainObject True [(''n'', JNumber (Finite 1))]\<rparr>"
    by (simp add: frmz_def p6_example_def own_property_def kept_def)
  moreover have "write_at (JObject PlainObject True [(''n'', JNumber (Finite 1))]) []
          (Field ''n'') (JString ''two'') =
        Some (JObject PlainObject True [(''n'', JString ''two'')], True)"
    by (simp add: assign_def handler_set_def set_field_def)
  moreover have "parse (inferSchema p6_example)
          (JObject PlainObject True [(''n'', JString ''two'')]) = Inl ZodError"
    by (simp add: p6_example_def own_property_def)
  ultimately show ?thesis
    using handler_set_ok [of t q v t' ok] in_model_handler_set [of t q v]
      write_at_succeeds [of d path q v]
    by auto
qed

theorem writes_always_succeed_witness:
  "handler_set (JArray True []) (Elem 0) (JFunction ''f'') = Some (JArray True [JFunction ''f''], True)
   \<and> in_model (JArray True []) (Elem 0)
   \<and> valid_path (JObject PlainObject True [(''a'', JArray True [])]) [Field ''a'']
   \<and> in_model (read_at (JObject PlainObject True [(''a'', JArray True [])]) [Field ''a'']) (Elem 0)
   \<and> (\<exists>d'. write_at (JObject PlainObject True [(''a'', JArray True [])]) [Field ''a''] (Elem 0)
              (JFunction ''f'') = Some (d', True))"
  using writes_always_succeed [where t = "JArray True []" and q = "Elem 0" and v = "JFunction ''f''"
      and t' = "JArray True [JFunction ''f'']" and ok = True
      and d = "JObject PlainObject True [(''a'', JArray True [])]" and path = "[Field ''a'']"]
  by (simp add: handler_set_def own_property_def)

section \<open>Rendering the current state\<close>



section \<open>The identity of binaries\<close>

lemma binaries_createDeepProxy:
  "binaries (createDeepProxy v) = binaries v"
  "binaries_elems (createDeepProxy_elems xs) = binaries_elems xs"
  "binaries_props (createDeepProxy_fields props) = binaries_props props"
  by (induction v and xs and props
      rule: createDeepProxy_createDeepProxy_elems_createDeepProxy_fields.induct) auto

lemma binary_entries_append:
  "binary_entries (fd @ fd') = binary_entries fd @ binary_entries fd'"
  by (induction fd rule: binary_entries.induct) auto

lemma entry_files_append:
  "entry_files (es @ es') = entry_files es @ entry_files es'"
  by (induction es rule: entry_files.induct) auto

lemma binary_entries_stored:
  "binary_entries [(key, stored (JBlob c False a bytes))] = [stored (JBlob c False a bytes)]"
  by (cases c) simp_all

lemma entry_files_stored:
  "entry_files [stored (JBlob c False a bytes)] = files (JBlob c False a bytes)"
  by (cases c) simp_all

lemma visited_item_comp: "visited_item p \<circ> below s = visited_item (spec_key p (segment s))"
  by (rule ext) auto

lemma binary_entries_visited:
  "plain_binaries v \<Longrightarrow> binary_entries (map (visited_item p) (visited v)) = binary_leaves v"
  "plain_binaries_elems xs \<Longrightarrow>
     binary_entries (map (visited_item p) (visited_elems i xs)) = binary_leaves_elems xs"
  "plain_binaries_props props \<Longrightarrow>
     binary_entries (map (visited_item p) (visited_props props)) = binary_leaves_props props"
  by (induction v and i xs and props arbitrary: p and p and p
      rule: visited_visited_elems_visited_props.induct)
    (auto simp: binary_entries_append visited_item_comp binary_entries_stored)

lemma entry_files_leaves:
  "plain_binaries v \<Longrightarrow> entry_files (binary_leaves v) = files v"
  "plain_binaries_elems xs \<Longrightarrow> entry_files (binary_leaves_elems xs) = files_elems xs"
  "plain_binaries_props props \<Longrightarrow> entry_files (binary_leaves_props props) = files_props props"
  by (induction v and xs and props
      rule: binary_leaves_binary_leaves_elems_binary_leaves_props.induct)
    (auto simp: entry_files_append entry_files_stored)

lemma getFormData_leaf: "\<not> (isProxiable (data h) \<and> \<not> isBlobLike (data h)) \<Longrightarrow> getFormData h = []"
  by (cases "data h") (simp_all add: getFormData_def)

lemma binary_leaves_leaf: "\<not> isProxiable v \<Longrightarrow> binary_leaves v = [] \<and> files v = []"
  by (cases v) simp_all

lemma getFormData_binaries:
  assumes "\<not> isBlobLike (data h)" "plain_binaries (data h)"
  shows "binary_entries (getFormData h) = binary_leaves (data h)"
proof (cases "isProxiable (data h)")
  case True
  with assms show ?thesis
    by (simp add: getFormData_def appendToFormData_visited binary_entries_visited)
next
  case False
  then show ?thesis by (simp add: getFormData_leaf binary_leaves_leaf)
qed

lemma plain_binaries_createDeepProxy:
  "\<not> isBlobLike v \<Longrightarrow> plain_binaries (createDeepProxy v) = plain_binaries v"
  "plain_binaries_elems (createDeepProxy_elems xs) = plain_binaries_elems xs"
  "plain_binaries_props (createDeepProxy_fields props) = plain_binaries_props props"
  by (induction v and xs and props
      rule: createDeepProxy_createDeepProxy_elems_createDeepProxy_fields.induct) auto

lemma structuredClone_plain:
  "structuredClone st v = Inr (v', st') \<Longrightarrow> plain_binaries v'"
  "structuredClone_elems st xs = Inr (xs', st') \<Longrightarrow> plain_binaries_elems xs'"
  "structuredClone_fields st props = Inr (props', st') \<Longrightarrow> plain_binaries_props props'"
  by (induction st v and st xs and st props arbitrary: v' st' and xs' st' and props' st'
      rule: structuredClone_structuredClone_elems_structuredClone_fields.induct)
    (auto split: if_splits option.splits sum.splits prod.splits objclass.splits)

lemma createDeepProxy_class: "isBlobLike (createDeepProxy v) = isBlobLike v"
  by (cases v) simp_all

lemma frmz_plain:
  assumes "frmz heap v schema = Inr h" "\<not> isBlobLike (data h)"
  shows "plain_binaries (data h)"
proof -
  from assms(1) obtain parsed copy st where
    b: "structuredClone (heap, []) parsed = Inr (copy, st)" and c: "data h = createDeepProxy copy"
    by (auto simp: frmz_def Let_def split: if_splits sum.splits prod.splits)
  from assms(2) c have "\<not> isBlobLike copy" by (simp add: createDeepProxy_class)
  then show ?thesis
    using structuredClone_plain(1) [OF b] by (simp add: c plain_binaries_createDeepProxy)
qed

lemma structuredClone_fresh:
  "structuredClone st v = Inr (v', st') \<Longrightarrow> fresh_from n st \<Longrightarrow>
     fresh_from n st' \<and> (\<forall>a \<in> set (binaries v'). n \<le> a)"
  "structuredClone_elems st xs = Inr (xs', st') \<Longrightarrow> fresh_from n st \<Longrightarrow>
     fresh_from n st' \<and> (\<forall>a \<in> set (binaries_elems xs'). n \<le> a)"
  "structuredClone_fields st props = Inr (props', st') \<Longrightarrow> fresh_from n st \<Longrightarrow>
     fresh_from n st' \<and> (\<forall>a \<in> set (binaries_props props'). n \<le> a)"
proof (induction st v and st xs and st props arbitrary: v' st' and xs' st' and props' st'
      rule: structuredClone_structuredClone_elems_structuredClone_fields.induct)
  case (3 st c p a bytes)
  then show ?case
    by (auto simp: fresh_from_def split: if_splits option.splits dest!: map_of_SomeD)
next
  case (4 st p xs)
  then show ?case by (auto split: if_splits sum.splits prod.splits)
next
  case (5 st c p props)
  then show ?case by (auto split: if_splits sum.splits prod.splits objclass.splits)
next
  case (8 st v xs)
  from "8.prems"(1) obtain w st1 ys where
    a: "structuredClone st v = Inr (w, st1)" and
    b: "structuredClone_elems st1 xs = Inr (ys, st')" and c: "xs' = w # ys"
    by (auto split: sum.splits prod.splits)
  from "8.IH"(1) [OF a "8.prems"(2)] have f1: "fresh_from n st1" and w: "\<forall>a \<in> set (binaries w). n \<le> a"
    by simp_all
  from "8.IH"(2) [OF a refl b f1] w c show ?case by auto
next
  case (10 st key v props)
  from "10.prems"(1) obtain w st1 ys where
    a: "structuredClone st v = Inr (w, st1)" and
    b: "structuredClone_fields st1 props = Inr (ys, st')" and c: "props' = (key, w) # ys"
    by (auto split: sum.splits prod.splits)
  from "10.IH"(1) [OF a "10.prems"(2)] have f1: "fresh_from n st1" and w: "\<forall>a \<in> set (binaries w). n \<le> a"
    by simp_all
  from "10.IH"(2) [OF a refl b f1] w c show ?case by auto
qed auto

lemma frmz_binaries_fresh:
  assumes "frmz heap v schema = Inr h"
  shows "\<forall>a \<in> set (binaries (data h)). heap \<le> a"
proof -
  from assms obtain parsed copy st where
    "structuredClone (heap, []) parsed = Inr (copy, st)" and "data h = createDeepProxy copy"
    by (auto simp: frmz_def Let_def split: if_splits sum.splits prod.splits)
  moreover have "fresh_from heap (heap, [])" by (simp add: fresh_from_def)
  ultimately show ?thesis
    using structuredClone_fresh(1) [of "(heap, [])" parsed copy st heap]
    by (simp add: binaries_createDeepProxy)
qed

text \<open>
  Claim C1, as amended. The wrapper, the validation of a binary and the flattener
  do not copy a binary: \<^verbatim>\<open>createDeepProxy\<close> keeps the binary leaves of a tree at their
  addresses, and \<^verbatim>\<open>z.instanceof(Blob)\<close> returns the binary it accepts. When the root of
  a handle is not a binary and no binary leaf of its data is a proxy, \<^verbatim>\<open>getFormData\<close>
  has one entry that is not a string for each binary leaf, in order: for a \<^verbatim>\<open>File\<close>
  the same object (the same address), for a \<^verbatim>\<open>Blob\<close> that is not a \<^verbatim>\<open>File\<close> a new \<^verbatim>\<open>File\<close>
  on the same bytes, made by \<^verbatim>\<open>append\<close>. When the root of a handle is a binary,
  \<^verbatim>\<open>getFormData\<close> has no entry. But the deep clone makes a new object of every
  binary: every binary reachable from a new handle has an address allocated by
  \<^verbatim>\<open>structuredClone\<close>, so none is a reference of the caller's submission; and unless
  the root of the new handle is a binary, no binary leaf of its data is a proxy.
\<close>

theorem binary_identity:
  "binaries (createDeepProxy w) = binaries w
   \<and> parse ZInstanceofBlob (JBlob c p a bytes) = Inr (JBlob c p a bytes)
   \<and> (\<not> isBlobLike (data h) \<and> plain_binaries (data h) \<longrightarrow>
        binary_entries (getFormData h) = binary_leaves (data h)
        \<and> entry_files (binary_entries (getFormData h)) = files (data h))
   \<and> (isBlobLike (data g) \<longrightarrow> getFormData g = [])
   \<and> (frmz heap v schema = Inr h' \<longrightarrow>
        (\<forall>a \<in> set (binaries (data h')). heap \<le> a)
        \<and> (\<not> isBlobLike (data h') \<longrightarrow> plain_binaries (data h')))
   \<and> (frmz heap v schema = Inr h' \<and> (\<forall>a \<in> set (binaries v). a < heap) \<longrightarrow>
        set (binaries (data h')) \<inter> set (binaries v) = {})"
proof -
  have fresh: "\<forall>a \<in> set (binaries (data h')). heap \<le> a" if "frmz heap v schema = Inr h'"
    using that by (rule frmz_binaries_fresh)
  have disjoint: "set (binaries (data h')) \<inter> set (binaries v) = {}"
    if "frmz heap v schema = Inr h'" "\<forall>a \<in> set (binaries v). a < heap"
    using fresh [OF that(1)] that(2) by fastforce
  have rendered: "binary_entries (getFormData h) = binary_leaves (data h)
        \<and> entry_files (binary_entries (getFormData h)) = files (data h)"
    if "\<not> isBlobLike (data h)" "plain_binaries (data h)"
    using that by (simp add: getFormData_binaries entry_files_leaves)
  have bare: "getFormData g = []" if "isBlobLike (data g)"
    using that by (simp add: getFormData_leaf)
  have plain: "plain_binaries (data h')" if "frmz heap v schema = Inr h'" "\<not> isBlobLike (data h')"
    using that by (rule frmz_plain)
  have "parse ZInstanceofBlob (JBlob c p a bytes) = Inr (JBlob c p a bytes)" by simp
  then show ?thesis
    using fresh disjoint rendered bare plain binaries_createDeepProxy(1) [of w] by blast
qed

theorem binary_identity_witness:
  "\<not> isBlobLike (JArray True [a_file, JBlob BlobClass False 5 ''raw''])
   \<and> plain_binaries (JArray True [a_file, JBlob BlobClass False 5 ''raw''])
   \<and> getFormData \<lparr>data = JArray True [a_file, JBlob BlobClass False 5 ''raw'']\<rparr>
       = [(''0'', FileRef 3 ''bytes''), (''1'', NewFile ''raw'')]
   \<and> binary_leaves (JArray True [a_file, JBlob BlobClass False 5 ''raw''])
       = [FileRef 3 ''bytes'', NewFile ''raw'']
   \<and> files (JArray True [a_file, JBlob BlobClass False 5 ''raw'']) = [3]
   \<and> isBlobLike (JBlob FileClass True 4 ''bytes'')
   \<and> frmz 4 a_file None = Inr \<lparr>data = JBlob FileClass True 4 ''bytes''\<rparr>
   \<and> getFormData \<lparr>data = JBlob FileClass True 4 ''bytes''\<rparr> = []
   \<and> frmz 4 with_file None =
       Inr \<lparr>data = JObject PlainObject True [(''avatar'', JBlob FileClass False 4 ''bytes'')]\<rparr>
   \<and> \<not> isBlobLike (JObject PlainObject True [(''avatar'', JBlob FileClass False 4 ''bytes'')])
   \<and> plain_binaries (JObject PlainObject True [(''avatar'', JBlob FileClass False 4 ''bytes'')])
   \<and> binaries with_file = [3]
   \<and> set (binaries (JObject PlainObject True [(''avatar'', JBlob FileClass False 4 ''bytes'')]))
        \<inter> set (binaries with_file) = {}"
  using binary_identity [where h = "\<lparr>data = JArray True [a_file, JBlob BlobClass False 5 ''raw'']\<rparr>"
      and g = "\<lparr>data = JBlob FileClass True 4 ''bytes''\<rparr>"
      and heap = 4 and v = with_file and schema = None
      and h' = "\<lparr>data = JObject PlainObject True [(''avatar'', JBlob FileClass False 4 ''bytes'')]\<rparr>"]
  by (simp add: a_file_def with_file_def frmz_def own_property_def kept_def getFormData_def
      append_def)

text \<open>
  The claim as stated fails on \<^verbatim>\<open>{ avatar: file }\<close>: the file of the submission is
  the object at the address 3, and the binary reachable from the handle, which is
  also the one rendered, is the new object at the address 4.
\<close>

theorem binary_identity_counterexample:
  "binaries with_file = [3]
   \<and> frmz 4 with_file None =
       Inr \<lparr>data = JObject PlainObject True [(''avatar'', JBlob FileClass False 4 ''bytes'')]\<rparr>
   \<and> binaries (JObject PlainObject True [(''avatar'', JBlob FileClass False 4 ''bytes'')]) = [4]
   \<and> getFormData \<lparr>data = JObject PlainObject True [(''avatar'', JBlob FileClass False 4 ''bytes'')]\<rparr>
       = [(''avatar'', FileRef 4 ''bytes'')]
   \<and> (4::nat) \<noteq> 3"
  by (simp add: a_file_def with_file_def frmz_def own_property_def kept_def getFormData_def
      append_def)

section \<open>The round trip through the inferred schema\<close>




















end
